theory Spec2Isabelle
  imports Complex_Main "HOL-Library.Sublist"
begin

section \<open>Python values handled by \<open>gdap.py\<close>\<close>

text \<open>
  The cells of the pandas data frame and the decoded JSON bodies of the boundary
  services are Python objects.  \<open>PNaN\<close> is the float NaN, which is how pandas
  represents a blank spreadsheet cell; \<open>PFloat\<close> is any other float (no arithmetic
  is done on floats by the program, they are only tested, stored and passed on).
  A \<open>dict\<close> is an association list read with \<open>map_of\<close>.
\<close>

datatype pyval =
    PNone
  | PNaN
  | PBool bool
  | PInt int
  | PFloat real
  | PStr string
  | PList "pyval list"
  | PDict "(string \<times> pyval) list"

type_synonym dict = "(string \<times> pyval) list"

text \<open>Python truthiness (\<open>bool(v)\<close>), as used by \<open>all([...])\<close> and \<open>if x:\<close>.
  NaN is a non-zero float, hence true.\<close>

fun py_truthy :: "pyval \<Rightarrow> bool" where
  "py_truthy PNone = False"
| "py_truthy PNaN = True"
| "py_truthy (PBool b) = b"
| "py_truthy (PInt n) = (n \<noteq> 0)"
| "py_truthy (PFloat r) = (r \<noteq> 0)"
| "py_truthy (PStr s) = (s \<noteq> [])"
| "py_truthy (PList xs) = (xs \<noteq> [])"
| "py_truthy (PDict d) = (d \<noteq> [])"

text \<open>\<open>pd.notna\<close> on a cell: only \<open>None\<close> and NaN are null.  (Coordinate cells
  are scalars; pandas answers elementwise on a list, which is outside this model.)\<close>

fun pd_notna :: "pyval \<Rightarrow> bool" where
  "pd_notna PNone = False"
| "pd_notna PNaN = False"
| "pd_notna v = True"

text \<open>Decimal text of an integer, for \<open>str\<close> and f-strings.\<close>

definition digit_char :: "nat \<Rightarrow> char" where
  "digit_char d = ''0123456789'' ! d"

fun str_nat :: "nat \<Rightarrow> string" where
  "str_nat n = (if n < 10 then [digit_char n] else str_nat (n div 10) @ [digit_char (n mod 10)])"

declare str_nat.simps [simp del]

definition str_int :: "int \<Rightarrow> string" where
  "str_int k = (if k < 0 then CHR ''-'' # str_nat (nat (- k)) else str_nat (nat k))"

section \<open>The outside world\<close>

text \<open>
  Every call that leaves the process is recorded, tagged with the position of the record
  being processed when it was made.  The replies of the outside world are functions of
  the history of calls so far, so a service may answer the same question differently at
  different moments of a run.
\<close>

datatype service = SF_Service | Marin_Service | Census_Service | FCC_Service

datatype call =
    CallGeocode string
  | CallHttp service pyval pyval
  | CallNow
  | CallSave

type_synonym event = "nat \<times> call"

text \<open>What \<open>self.geolocator.geocode(full_address, timeout=10)\<close> does: returns a location
  (latitude, longitude, address), returns \<open>None\<close>, raises \<open>GeocoderTimedOut\<close> or
  \<open>GeocoderServiceError\<close>, or raises some other exception; the string is \<open>str(e)\<close>.\<close>

datatype geo_reply =
    GeoLocation real real string
  | GeoNoMatch
  | GeoServiceError string
  | GeoOtherError string

text \<open>What \<open>session.get\<close>, \<open>raise_for_status\<close> and \<open>response.json()\<close> do together:
  raise, or yield the decoded body.\<close>

datatype http_reply = HttpRaises | HttpJson pyval

record env =
  geocode_svc :: "event list \<Rightarrow> string \<Rightarrow> geo_reply"
  http_svc :: "event list \<Rightarrow> service \<Rightarrow> pyval \<Rightarrow> pyval \<Rightarrow> http_reply"
  clock :: "event list \<Rightarrow> string"
  repr_other :: "pyval \<Rightarrow> string"

text \<open>\<open>str(v)\<close>.  The text of a float or of a container is left to the environment
  (\<open>repr_other\<close>).\<close>

fun py_str :: "env \<Rightarrow> pyval \<Rightarrow> string" where
  "py_str env PNone = ''None''"
| "py_str env PNaN = ''nan''"
| "py_str env (PBool b) = (if b then ''True'' else ''False'')"
| "py_str env (PInt k) = str_int k"
| "py_str env (PStr s) = s"
| "py_str env v = repr_other env v"

section \<open>The data frame and the state of a run\<close>

text \<open>A row maps column names to cells; a column that the sheet does not have is
  \<open>None\<close> of the map.  \<open>v_city\<close> is the local variable \<open>city\<close> of
  \<open>process_records\<close>: it is assigned only on the geocoding path of the loop body, so
  it is unbound (\<open>None\<close>) until then and keeps its value from one iteration to the next.\<close>

type_synonym row = "string \<rightharpoonup> pyval"

record pstate =
  df :: "row list"
  processed :: nat
  v_city :: "pyval option"
  trace :: "event list"

definition row_get :: "row \<Rightarrow> string \<Rightarrow> pyval \<Rightarrow> pyval" where
  "row_get r col dflt = (case r col of None \<Rightarrow> dflt | Some v \<Rightarrow> v)"

text \<open>\<open>self.df.at[index, col] = v\<close>.  The columns hold Python objects, and the
  assignment itself is taken to succeed.\<close>

definition df_at :: "nat \<Rightarrow> string \<Rightarrow> pyval \<Rightarrow> pstate \<Rightarrow> pstate" where
  "df_at i col v st = st\<lparr>df := (df st)[i := ((df st) ! i)(col \<mapsto> v)]\<rparr>"

definition emit :: "nat \<Rightarrow> call \<Rightarrow> pstate \<Rightarrow> pstate" where
  "emit i c st = st\<lparr>trace := trace st @ [(i, c)]\<rparr>"

text \<open>\<open>load_data\<close>, after \<open>pd.read_excel\<close>: each of the thirteen output columns
  that the sheet lacks is added, filled with \<open>None\<close>.\<close>

definition new_columns :: "string list" where
  "new_columns =
     [''Latitude'', ''Longitude'', ''Geocoded_Address'',
      ''SF_Supervisorial_District'',
      ''Marin_Supervisor_District'',
      ''Congressional_District'',
      ''Census_PUMA'', ''Census_Tract'', ''Census_Block'',
      ''CA_Assembly_District'',
      ''CA_Senate_District'',
      ''Geocoding_Status'', ''Last_Updated'']"

fun add_columns :: "string list \<Rightarrow> row \<Rightarrow> row" where
  "add_columns [] r = r"
| "add_columns (c # cs) r =
     add_columns cs (case r c of None \<Rightarrow> r(c \<mapsto> PNone) | Some v \<Rightarrow> r)"

definition load_data :: "row list \<Rightarrow> row list" where
  "load_data sheet = map (add_columns new_columns) sheet"

section \<open>Geocoder adapter\<close>

definition full_address :: "env \<Rightarrow> pyval \<Rightarrow> pyval \<Rightarrow> pyval \<Rightarrow> string" where
  "full_address env address city zip_code =
     py_str env address @ '', '' @ py_str env city @ '', CA '' @ py_str env zip_code"

definition geocode_address ::
  "env \<Rightarrow> nat \<Rightarrow> pyval \<Rightarrow> pyval \<Rightarrow> pyval \<Rightarrow> pstate \<Rightarrow> dict \<times> pstate" where
  "geocode_address env i address city zip_code st =
     (let q = full_address env address city zip_code;
          location = geocode_svc env (trace st) q;
          st1 = emit i (CallGeocode q) st
      in (case location of
            GeoLocation la lo a \<Rightarrow>
              [(''latitude'', PFloat la), (''longitude'', PFloat lo),
               (''formatted_address'', PStr a), (''status'', PStr ''Success'')]
          | GeoNoMatch \<Rightarrow> [(''status'', PStr ''Not Found'')]
          | GeoServiceError m \<Rightarrow> [(''status'', PStr (''Error: '' @ m))]
          | GeoOtherError m \<Rightarrow> [(''status'', PStr (''Unexpected Error: '' @ m))],
          st1))"

section \<open>Exceptions and the Python operations that raise them\<close>

text \<open>\<open>KeyError k\<close> is a missing dictionary key, \<open>UnboundLocalError x\<close> a read of the
  local variable \<open>x\<close> before any assignment, \<open>OtherError m\<close> any other exception, with
  its message.  All of them are instances of \<open>Exception\<close>, which is what the handlers of
  the program catch.\<close>

datatype exn = KeyError string | UnboundLocalError string | OtherError string

text \<open>\<open>str(e)\<close>: a \<open>KeyError\<close> prints the \<open>repr\<close> of its key (quoted; the keys
  here are plain identifiers), an \<open>UnboundLocalError\<close> the interpreter's sentence
  (wording of CPython 3.11 and later).\<close>

fun str_exn :: "exn \<Rightarrow> string" where
  "str_exn (KeyError k) = [CHR 0x27] @ k @ [CHR 0x27]"
| "str_exn (UnboundLocalError x) =
     ''cannot access local variable '' @ [CHR 0x27] @ x @ [CHR 0x27]
       @ '' where it is not associated with a value''"
| "str_exn (OtherError m) = m"

definition then_e :: "exn + 'a \<Rightarrow> ('a \<Rightarrow> exn + 'b) \<Rightarrow> exn + 'b" where
  "then_e m f = (case m of Inl e \<Rightarrow> Inl e | Inr v \<Rightarrow> f v)"

text \<open>\<open>d[k]\<close> on a dictionary built by the program itself.\<close>

definition dict_item :: "dict \<Rightarrow> string \<Rightarrow> exn + pyval" where
  "dict_item d k = (case map_of d k of None \<Rightarrow> Inl (KeyError k) | Some v \<Rightarrow> Inr v)"

text \<open>\<open>k in v\<close> for a string \<open>k\<close>: key membership in a dict, element membership in a
  list, substring test in a string, \<open>TypeError\<close> otherwise.\<close>

fun py_in :: "string \<Rightarrow> pyval \<Rightarrow> exn + bool" where
  "py_in k (PDict d) = Inr (map_of d k \<noteq> None)"
| "py_in k (PList xs) = Inr (PStr k \<in> set xs)"
| "py_in k (PStr s) = Inr (sublist k s)"
| "py_in k v = Inl (OtherError ''argument is not iterable'')"

text \<open>\<open>v[k]\<close> for a string \<open>k\<close>: only a dict accepts it.\<close>

fun py_item :: "pyval \<Rightarrow> string \<Rightarrow> exn + pyval" where
  "py_item (PDict d) k = dict_item d k"
| "py_item v k = Inl (OtherError ''bad subscript'')"

text \<open>\<open>v[0]\<close>: first element of a list, first character of a string; a JSON object
  has only string keys, so \<open>0\<close> is a missing key there.\<close>

fun py_first :: "pyval \<Rightarrow> exn + pyval" where
  "py_first (PList (x # xs)) = Inr x"
| "py_first (PList []) = Inl (OtherError ''list index out of range'')"
| "py_first (PStr (c # cs)) = Inr (PStr [c])"
| "py_first (PStr []) = Inl (OtherError ''string index out of range'')"
| "py_first (PDict d) = Inl (OtherError ''0'')"
| "py_first v = Inl (OtherError ''object is not subscriptable'')"

text \<open>\<open>v.get(k, dflt)\<close>: only a dict has the method.\<close>

fun py_get :: "pyval \<Rightarrow> string \<Rightarrow> pyval \<Rightarrow> exn + pyval" where
  "py_get (PDict d) k dflt = Inr (case map_of d k of None \<Rightarrow> dflt | Some v \<Rightarrow> v)"
| "py_get v k dflt = Inl (OtherError ''object has no attribute get'')"

section \<open>District resolvers\<close>

text \<open>The body of the \<open>try\<close> of \<open>get_sf_supervisorial_district\<close> and of
  \<open>get_marin_supervisor_district\<close>, from \<open>data = response.json()\<close> on (the two are
  the same text).\<close>

definition district_of_features :: "pyval \<Rightarrow> exn + dict" where
  "district_of_features data =
     then_e (py_in ''features'' data) (\<lambda>has.
     then_e (if has then py_item data ''features'' else Inr PNone) (\<lambda>fs.
       if has \<and> py_truthy fs then
         then_e (py_first fs) (\<lambda>feature.
         then_e (py_item feature ''attributes'') (\<lambda>attributes.
         then_e (py_get attributes ''DISTRICT'' (PStr ''Unknown'')) (\<lambda>d.
           Inr [(''district'', d)])))
       else Inr [(''district'', PNone)]))"

definition get_sf_supervisorial_district ::
  "env \<Rightarrow> nat \<Rightarrow> pyval \<Rightarrow> pyval \<Rightarrow> pstate \<Rightarrow> dict \<times> pstate" where
  "get_sf_supervisorial_district env i lat lon st =
     (let response = http_svc env (trace st) SF_Service lat lon;
          st1 = emit i (CallHttp SF_Service lat lon) st
      in (case response of
            HttpRaises \<Rightarrow> [(''district'', PStr ''Error'')]
          | HttpJson data \<Rightarrow>
              (case district_of_features data of
                 Inl e \<Rightarrow> [(''district'', PStr ''Error'')]
               | Inr res \<Rightarrow> res),
          st1))"

definition get_marin_supervisor_district ::
  "env \<Rightarrow> nat \<Rightarrow> pyval \<Rightarrow> pyval \<Rightarrow> pstate \<Rightarrow> dict \<times> pstate" where
  "get_marin_supervisor_district env i lat lon st =
     (let response = http_svc env (trace st) Marin_Service lat lon;
          st1 = emit i (CallHttp Marin_Service lat lon) st
      in (case response of
            HttpRaises \<Rightarrow> [(''district'', PStr ''Error'')]
          | HttpJson data \<Rightarrow>
              (case district_of_features data of
                 Inl e \<Rightarrow> [(''district'', PStr ''Error'')]
               | Inr res \<Rightarrow> res),
          st1))"

text \<open>One geography level of the census reply:
  \<^verbatim>\<open>if level in geographies: xs = geographies[level]; if xs: v = xs[0].get(field, None)\<close>\<close>

definition census_level :: "pyval \<Rightarrow> string \<Rightarrow> string \<Rightarrow> exn + pyval" where
  "census_level geographies level field =
     then_e (py_in level geographies) (\<lambda>has.
       if has then
         then_e (py_item geographies level) (\<lambda>xs.
           if py_truthy xs then then_e (py_first xs) (\<lambda>x. py_get x field PNone)
           else Inr PNone)
       else Inr PNone)"

definition census_of_data :: "pyval \<Rightarrow> exn + dict" where
  "census_of_data data =
     then_e (py_in ''result'' data) (\<lambda>has.
     then_e (if has then then_e (py_item data ''result'') (\<lambda>r. py_in ''geographies'' r)
             else Inr False) (\<lambda>has2.
       if has \<and> has2 then
         then_e (py_item data ''result'') (\<lambda>r.
         then_e (py_item r ''geographies'') (\<lambda>geographies.
         then_e (census_level geographies ''Public Use Microdata Areas'' ''PUMA'') (\<lambda>puma.
         then_e (census_level geographies ''Census Tracts'' ''TRACT'') (\<lambda>tract.
         then_e (census_level geographies ''Census Blocks'' ''BLOCK'') (\<lambda>block.
           Inr [(''puma'', puma), (''tract'', tract), (''block'', block)])))))
       else Inr [(''puma'', PNone), (''tract'', PNone), (''block'', PNone)]))"

definition get_census_data ::
  "env \<Rightarrow> nat \<Rightarrow> pyval \<Rightarrow> pyval \<Rightarrow> pstate \<Rightarrow> dict \<times> pstate" where
  "get_census_data env i lat lon st =
     (let response = http_svc env (trace st) Census_Service lat lon;
          st1 = emit i (CallHttp Census_Service lat lon) st;
          err = [(''puma'', PStr ''Error''), (''tract'', PStr ''Error''),
                 (''block'', PStr ''Error'')]
      in (case response of
            HttpRaises \<Rightarrow> err
          | HttpJson data \<Rightarrow>
              (case census_of_data data of Inl e \<Rightarrow> err | Inr res \<Rightarrow> res),
          st1))"

definition political_of_data :: "pyval \<Rightarrow> exn + dict" where
  "political_of_data data =
     then_e (py_in ''results'' data) (\<lambda>has.
     then_e (if has then py_item data ''results'' else Inr PNone) (\<lambda>rs.
       if has \<and> py_truthy rs then
         then_e (py_first rs) (\<lambda>result.
         then_e (py_get result ''congress_district'' PNone) (\<lambda>c.
         then_e (py_get result ''state_lower_district'' PNone) (\<lambda>a.
         then_e (py_get result ''state_upper_district'' PNone) (\<lambda>s.
           Inr [(''congressional'', c), (''assembly'', a), (''senate'', s)]))))
       else Inr [(''congressional'', PNone), (''assembly'', PNone), (''senate'', PNone)]))"

definition get_political_districts ::
  "env \<Rightarrow> nat \<Rightarrow> pyval \<Rightarrow> pyval \<Rightarrow> pstate \<Rightarrow> dict \<times> pstate" where
  "get_political_districts env i lat lon st =
     (let response = http_svc env (trace st) FCC_Service lat lon;
          st1 = emit i (CallHttp FCC_Service lat lon) st;
          err = [(''congressional'', PStr ''Error''), (''assembly'', PStr ''Error''),
                 (''senate'', PStr ''Error'')]
      in (case response of
            HttpRaises \<Rightarrow> err
          | HttpJson data \<Rightarrow>
              (case political_of_data data of Inl e \<Rightarrow> err | Inr res \<Rightarrow> res),
          st1))"

section \<open>Strings: \<open>lower\<close> and \<open>in\<close>\<close>

text \<open>\<open>s.lower()\<close> on ASCII text; \<open>a in s\<close> on strings is \<^const>\<open>sublist\<close>.\<close>

definition lower_char :: "char \<Rightarrow> char" where
  "lower_char c =
     (case map_of (zip ''ABCDEFGHIJKLMNOPQRSTUVWXYZ'' ''abcdefghijklmnopqrstuvwxyz'') c of
        None \<Rightarrow> c
      | Some l \<Rightarrow> l)"

definition lower :: "string \<Rightarrow> string" where
  "lower s = map lower_char s"

section \<open>\<open>process_records\<close>\<close>

text \<open>How one pass through the body of the \<open>try\<close> ends: it runs to its last
  statement, it leaves through a \<open>continue\<close>, or it raises.\<close>

datatype outcome = Normal | Continue | Raised exn

definition and_then ::
  "exn option \<times> pstate \<Rightarrow> (pstate \<Rightarrow> exn option \<times> pstate) \<Rightarrow> exn option \<times> pstate" where
  "and_then r f = (case r of (None, st) \<Rightarrow> f st | (Some e, st) \<Rightarrow> (Some e, st))"

text \<open>\<open>self.df.at[index, col] = d[k]\<close>: the right-hand side is evaluated first.\<close>

definition assign_item ::
  "nat \<Rightarrow> string \<Rightarrow> dict \<Rightarrow> string \<Rightarrow> pstate \<Rightarrow> exn option \<times> pstate" where
  "assign_item i col d k st =
     (case dict_item d k of Inl e \<Rightarrow> (Some e, st) | Inr v \<Rightarrow> (None, df_at i col v st))"

text \<open>\<^verbatim>\<open>'san francisco' in str(city).lower()\<close>\<close>

definition sf_match :: "env \<Rightarrow> pyval \<Rightarrow> bool" where
  "sf_match env city = sublist ''san francisco'' (lower (py_str env city))"

definition sf_step ::
  "env \<Rightarrow> nat \<Rightarrow> pyval \<Rightarrow> pyval \<Rightarrow> pyval \<Rightarrow> pstate \<Rightarrow> exn option \<times> pstate" where
  "sf_step env i city lat lon st =
     (if sf_match env city then
        (let (sf_district, st1) = get_sf_supervisorial_district env i lat lon st
         in and_then (assign_item i ''SF_Supervisorial_District'' sf_district ''district'' st1)
                     (assign_item i ''SF_Supervisor'' sf_district ''supervisor''))
      else (None, st))"

definition marin_cities :: "string list" where
  "marin_cities =
     [''san rafael'', ''novato'', ''mill valley'', ''tiburon'', ''sausalito'',
      ''corte madera'', ''larkspur'', ''fairfax'', ''san anselmo'', ''ross'',
      ''kentfield'', ''belvedere'']"

text \<open>\<^verbatim>\<open>any(marin_city in str(city).lower() for marin_city in [...])\<close>\<close>

definition marin_match :: "env \<Rightarrow> pyval \<Rightarrow> bool" where
  "marin_match env city =
     list_ex (\<lambda>marin_city. sublist marin_city (lower (py_str env city))) marin_cities"

definition marin_step ::
  "env \<Rightarrow> nat \<Rightarrow> pyval \<Rightarrow> pyval \<Rightarrow> pyval \<Rightarrow> pstate \<Rightarrow> exn option \<times> pstate" where
  "marin_step env i city lat lon st =
     (if marin_match env city then
        (let (marin_district, st1) = get_marin_supervisor_district env i lat lon st
         in and_then (assign_item i ''Marin_Supervisor_District'' marin_district ''district'' st1)
                     (assign_item i ''Marin_Supervisor'' marin_district ''supervisor''))
      else (None, st))"

definition census_step ::
  "env \<Rightarrow> nat \<Rightarrow> pyval \<Rightarrow> pyval \<Rightarrow> pstate \<Rightarrow> exn option \<times> pstate" where
  "census_step env i lat lon st =
     (let (census_data, st1) = get_census_data env i lat lon st
      in and_then (assign_item i ''Census_PUMA'' census_data ''puma'' st1) (\<lambda>st2.
         and_then (assign_item i ''Census_Tract'' census_data ''tract'' st2)
                  (assign_item i ''Census_Block'' census_data ''block'')))"

definition political_step ::
  "env \<Rightarrow> nat \<Rightarrow> pyval \<Rightarrow> pyval \<Rightarrow> pstate \<Rightarrow> exn option \<times> pstate" where
  "political_step env i lat lon st =
     (let (political_districts, st1) = get_political_districts env i lat lon st
      in and_then (assign_item i ''Congressional_District'' political_districts
                     ''congressional'' st1) (\<lambda>st2.
         and_then (assign_item i ''CA_Assembly_District'' political_districts ''assembly'' st2)
                  (assign_item i ''CA_Senate_District'' political_districts ''senate'')))"

text \<open>\<open>self.df.at[index, 'Last_Updated'] = datetime.now().strftime(...)\<close>\<close>

definition stamp :: "env \<Rightarrow> nat \<Rightarrow> pstate \<Rightarrow> pstate" where
  "stamp env i st =
     df_at i ''Last_Updated'' (PStr (clock env (trace st))) (emit i CallNow st)"

text \<open>\<open>save_progress\<close>: one attempt to write the table; a failure is logged and
  swallowed.\<close>

definition save_progress :: "nat \<Rightarrow> pstate \<Rightarrow> pstate" where
  "save_progress i st = emit i CallSave st"

text \<open>\<^verbatim>\<open>processed += 1\<close>, then \<^verbatim>\<open>if processed % 10 == 0: self.save_progress()\<close>\<close>

definition count_and_save :: "nat \<Rightarrow> pstate \<Rightarrow> pstate" where
  "count_and_save i st =
     (let st1 = st\<lparr>processed := processed st + 1\<rparr>
      in if processed st1 mod 10 = 0 then save_progress i st1 else st1)"

text \<open>The body from the comment \<open># Get SF Sups District\<close> to the end of the
  \<open>try\<close>.  Its first statement reads the local variable \<open>city\<close>.\<close>

definition lookups :: "env \<Rightarrow> nat \<Rightarrow> pyval \<Rightarrow> pyval \<Rightarrow> pstate \<Rightarrow> outcome \<times> pstate" where
  "lookups env i lat lon st =
     (case v_city st of
        None \<Rightarrow> (Raised (UnboundLocalError ''city''), st)
      | Some city \<Rightarrow>
          (case and_then (sf_step env i city lat lon st) (\<lambda>st1.
                and_then (marin_step env i city lat lon st1) (\<lambda>st2.
                and_then (census_step env i lat lon st2)
                         (political_step env i lat lon))) of
             (Some e, st3) \<Rightarrow> (Raised e, st3)
           | (None, st3) \<Rightarrow> (Normal, count_and_save i (stamp env i st3))))"

text \<open>The statements after a successful geocode, then the lookups.\<close>

definition store_geocode :: "env \<Rightarrow> nat \<Rightarrow> dict \<Rightarrow> pstate \<Rightarrow> outcome \<times> pstate" where
  "store_geocode env i geocode_result st =
     (case dict_item geocode_result ''latitude'' of
        Inl e \<Rightarrow> (Raised e, st)
      | Inr lat \<Rightarrow>
     (case dict_item geocode_result ''longitude'' of
        Inl e \<Rightarrow> (Raised e, st)
      | Inr lon \<Rightarrow>
     (let st1 = df_at i ''Latitude'' lat st;
          st2 = df_at i ''Longitude'' lon st1
      in (case dict_item geocode_result ''formatted_address'' of
            Inl e \<Rightarrow> (Raised e, st2)
          | Inr a \<Rightarrow>
              (let st3 = df_at i ''Geocoded_Address'' a st2;
                   st4 = df_at i ''Geocoding_Status'' (PStr ''Success'') st3
               in lookups env i lat lon st4)))))"

text \<open>The body of the \<open>try\<close>.  On the first branch \<open>row['Latitude']\<close> and
  \<open>row['Longitude']\<close> are the cells just tested, so they are read with \<open>row_get\<close>
  again.  The variables \<open>address\<close> and \<open>zip_code\<close> are read only where they were
  just assigned; \<open>city\<close> is also read by the lookups, so it is kept in the state.\<close>

definition record_body :: "env \<Rightarrow> nat \<Rightarrow> pstate \<Rightarrow> outcome \<times> pstate" where
  "record_body env i st =
     (let row = df st ! i in
      if pd_notna (row_get row ''Latitude'' PNone) \<and> pd_notna (row_get row ''Longitude'' PNone)
      then lookups env i (row_get row ''Latitude'' PNone) (row_get row ''Longitude'' PNone) st
      else
        (let address = row_get row ''Person Address'' (PStr []);
             city = row_get row ''Person city'' (PStr []);
             zip_code = row_get row ''Person Zip Code'' (PStr []);
             st0 = st\<lparr>v_city := Some city\<rparr>
         in if \<not> (py_truthy address \<and> py_truthy city \<and> py_truthy zip_code)
            then (Continue, df_at i ''Geocoding_Status'' (PStr ''Missing Address Data'') st0)
            else
              (let (geocode_result, st1) = geocode_address env i address city zip_code st0
               in (case dict_item geocode_result ''status'' of
                     Inl e \<Rightarrow> (Raised e, st1)
                   | Inr s \<Rightarrow>
                       if s = PStr ''Success'' then store_geocode env i geocode_result st1
                       else (Continue, df_at i ''Geocoding_Status'' s st1)))))"

text \<open>One iteration of the loop: the body under its \<open>except Exception\<close> handler.\<close>

definition process_record :: "env \<Rightarrow> nat \<Rightarrow> pstate \<Rightarrow> pstate" where
  "process_record env i st =
     (case record_body env i st of
        (Raised e, st1) \<Rightarrow>
          df_at i ''Geocoding_Status'' (PStr (''Processing Error: '' @ str_exn e)) st1
      | (Continue, st1) \<Rightarrow> st1
      | (Normal, st1) \<Rightarrow> st1)"

fun process_loop :: "env \<Rightarrow> nat list \<Rightarrow> pstate \<Rightarrow> pstate" where
  "process_loop env [] st = st"
| "process_loop env (i # rest) st = process_loop env rest (process_record env i st)"

text \<open>\<open>process_records\<close> on \<open>self.df\<close>: \<open>None\<close> stands for the return value
  \<open>False\<close> (no data loaded), \<open>Some st\<close> for \<open>True\<close> with the final state.\<close>

definition init_state :: "row list \<Rightarrow> pstate" where
  "init_state rows = \<lparr>df = rows, processed = 0, v_city = None, trace = []\<rparr>"

definition process_rows :: "env \<Rightarrow> row list \<Rightarrow> pstate" where
  "process_rows env rows = process_loop env [0..<length rows] (init_state rows)"


section \<open>Observations on a state\<close>

text \<open>The cell \<open>df.at[i, col]\<close>; the calls made while record \<open>i\<close> was being
  processed; how often a call occurs in a trace.\<close>

definition df_cell :: "pstate \<Rightarrow> nat \<Rightarrow> string \<Rightarrow> pyval option" where
  "df_cell st i col = (df st ! i) col"

definition calls_for :: "nat \<Rightarrow> event list \<Rightarrow> call list" where
  "calls_for i evs = map snd (filter (\<lambda>e. fst e = i) evs)"

definition count_call :: "call \<Rightarrow> event list \<Rightarrow> nat" where
  "count_call c evs = length (filter (\<lambda>e. snd e = c) evs)"

section \<open>Vocabulary of the properties\<close>

text \<open>The data-model invariant on one row: a status of \<open>Success\<close> comes with
  non-null coordinates.\<close>

definition status_ok :: "row \<Rightarrow> bool" where
  "status_ok r =
     (r ''Geocoding_Status'' = Some (PStr ''Success'') \<longrightarrow>
        pd_notna (row_get r ''Latitude'' PNone) \<and> pd_notna (row_get r ''Longitude'' PNone))"

text \<open>The state in which the run reaches record \<open>i\<close>: records \<open>0\<close> to \<open>i - 1\<close>
  have been processed.\<close>

definition reached :: "env \<Rightarrow> row list \<Rightarrow> nat \<Rightarrow> pstate" where
  "reached env rows i = process_loop env [0..<i] (init_state rows)"

text \<open>The four resolvers under one name, the part of each that reads the decoded
  body, and the fields of the dictionary each returns.\<close>

fun resolve :: "service \<Rightarrow> env \<Rightarrow> nat \<Rightarrow> pyval \<Rightarrow> pyval \<Rightarrow> pstate \<Rightarrow> dict \<times> pstate" where
  "resolve SF_Service = get_sf_supervisorial_district"
| "resolve Marin_Service = get_marin_supervisor_district"
| "resolve Census_Service = get_census_data"
| "resolve FCC_Service = get_political_districts"

fun parse_reply :: "service \<Rightarrow> pyval \<Rightarrow> exn + dict" where
  "parse_reply SF_Service = district_of_features"
| "parse_reply Marin_Service = district_of_features"
| "parse_reply Census_Service = census_of_data"
| "parse_reply FCC_Service = political_of_data"

fun result_fields :: "service \<Rightarrow> string list" where
  "result_fields SF_Service = [''district'']"
| "result_fields Marin_Service = [''district'']"
| "result_fields Census_Service = [''puma'', ''tract'', ''block'']"
| "result_fields FCC_Service = [''congressional'', ''assembly'', ''senate'']"

definition all_fields :: "service \<Rightarrow> pyval \<Rightarrow> dict" where
  "all_fields svc v = map (\<lambda>f. (f, v)) (result_fields svc)"

text \<open>A well-formed body with an empty list: the \<open>features\<close> (municipal, county) or
  \<open>results\<close> (political) list is empty; for the census service each of the three
  geography levels is absent or an empty list.\<close>

definition has_empty_list :: "string \<Rightarrow> pyval \<Rightarrow> bool" where
  "has_empty_list k data =
     (case data of PDict d \<Rightarrow> map_of d k = Some (PList []) | _ \<Rightarrow> False)"

definition level_empty :: "dict \<Rightarrow> string \<Rightarrow> bool" where
  "level_empty g level = (map_of g level = None \<or> map_of g level = Some (PList []))"

fun empty_body :: "service \<Rightarrow> pyval \<Rightarrow> bool" where
  "empty_body SF_Service data = has_empty_list ''features'' data"
| "empty_body Marin_Service data = has_empty_list ''features'' data"
| "empty_body FCC_Service data = has_empty_list ''results'' data"
| "empty_body Census_Service data =
     (case data of
        PDict d \<Rightarrow>
          (case map_of d ''result'' of
             Some (PDict r) \<Rightarrow>
               (case map_of r ''geographies'' of
                  Some (PDict g) \<Rightarrow>
                    level_empty g ''Public Use Microdata Areas'' \<and>
                    level_empty g ''Census Tracts'' \<and>
                    level_empty g ''Census Blocks''
                | _ \<Rightarrow> False)
           | _ \<Rightarrow> False)
      | _ \<Rightarrow> False)"

text \<open>The HTTP call raises, or reading the body does.\<close>

definition lookup_raises :: "service \<Rightarrow> http_reply \<Rightarrow> bool" where
  "lookup_raises svc reply =
     (case reply of HttpRaises \<Rightarrow> True | HttpJson data \<Rightarrow> isl (parse_reply svc data))"

text \<open>The bookkeeping of the checkpoint: the counter equals the number of
  \<open>Last_Updated\<close> stamps, and one save was made for every ten of them.\<close>

definition tally :: "pstate \<Rightarrow> bool" where
  "tally st \<longleftrightarrow>
     processed st = count_call CallNow (trace st) \<and>
     count_call CallSave (trace st) = processed st div 10"

text \<open>A record that has no stored coordinates and all three address components, by
  the tests of the loop body.\<close>

definition wants_geocoding :: "row \<Rightarrow> bool" where
  "wants_geocoding r \<longleftrightarrow>
     \<not> (pd_notna (row_get r ''Latitude'' PNone) \<and> pd_notna (row_get r ''Longitude'' PNone)) \<and>
     py_truthy (row_get r ''Person Address'' (PStr [])) \<and>
     py_truthy (row_get r ''Person city'' (PStr [])) \<and>
     py_truthy (row_get r ''Person Zip Code'' (PStr []))"

text \<open>A record that still needs geocoding, has all three address components, and
  whose city names neither San Francisco nor a Marin municipality; a geocoder that finds
  every address.\<close>

definition elsewhere :: "env \<Rightarrow> row \<Rightarrow> bool" where
  "elsewhere env r \<longleftrightarrow>
     \<not> (pd_notna (row_get r ''Latitude'' PNone) \<and> pd_notna (row_get r ''Longitude'' PNone)) \<and>
     py_truthy (row_get r ''Person Address'' (PStr [])) \<and>
     py_truthy (row_get r ''Person city'' (PStr [])) \<and>
     py_truthy (row_get r ''Person Zip Code'' (PStr [])) \<and>
     \<not> sf_match env (row_get r ''Person city'' (PStr [])) \<and>
     \<not> marin_match env (row_get r ''Person city'' (PStr []))"

definition always_found :: "env \<Rightarrow> bool" where
  "always_found env \<longleftrightarrow> (\<forall>h q. \<exists>la lo a. geocode_svc env h q = GeoLocation la lo a)"

section \<open>Concrete worlds and sheets\<close>

text \<open>The city-hall scenario: the geocoder finds the address, the municipal service
  answers district 6, the county service answers no feature, the census and political
  services answer fixed codes.\<close>

definition city_hall_env :: env where
  "city_hall_env =
     \<lparr>geocode_svc = (\<lambda>h q. GeoLocation 37.7793 (-122.4193) ''City Hall, SF, CA''),
      http_svc = (\<lambda>h s la lo.
         case s of
           SF_Service \<Rightarrow>
             HttpJson (PDict [(''features'',
               PList [PDict [(''attributes'', PDict [(''DISTRICT'', PInt 6)])]])])
         | Marin_Service \<Rightarrow> HttpJson (PDict [(''features'', PList [])])
         | Census_Service \<Rightarrow>
             HttpJson (PDict [(''result'', PDict [(''geographies'', PDict
               [(''Public Use Microdata Areas'', PList [PDict [(''PUMA'', PStr ''07507'')]]),
                (''Census Tracts'', PList [PDict [(''TRACT'', PStr ''012402'')]]),
                (''Census Blocks'', PList [PDict [(''BLOCK'', PStr ''1000'')]])])])])
         | FCC_Service \<Rightarrow>
             HttpJson (PDict [(''results'', PList [PDict
               [(''congress_district'', PStr ''11''),
                (''state_lower_district'', PStr ''17''),
                (''state_upper_district'', PStr ''11'')]])])),
      clock = (\<lambda>h. ''2025-01-01 00:00:00''),
      repr_other = (\<lambda>v. ''?'')\<rparr>"

definition city_hall_sheet :: "row list" where
  "city_hall_sheet =
     [[''Person Address'' \<mapsto> PStr ''1 Dr Carlton B Goodlett Pl'',
       ''Person city'' \<mapsto> PStr ''San Francisco'',
       ''Person Zip Code'' \<mapsto> PStr ''94102'']]"

text \<open>A world whose boundary services all answer well-formed bodies with empty lists,
  one where every HTTP call raises, and one whose bodies are not objects.\<close>

definition empty_env :: env where
  "empty_env =
     \<lparr>geocode_svc = (\<lambda>h q. GeoNoMatch),
      http_svc = (\<lambda>h s la lo.
         case s of
           SF_Service \<Rightarrow> HttpJson (PDict [(''features'', PList [])])
         | Marin_Service \<Rightarrow> HttpJson (PDict [(''features'', PList [])])
         | Census_Service \<Rightarrow>
             HttpJson (PDict [(''result'', PDict [(''geographies'', PDict
               [(''Census Tracts'', PList [])])])])
         | FCC_Service \<Rightarrow> HttpJson (PDict [(''results'', PList [])])),
      clock = (\<lambda>h. ''2025-01-01 00:00:00''),
      repr_other = (\<lambda>v. ''?'')\<rparr>"

definition down_env :: env where
  "down_env =
     \<lparr>geocode_svc = (\<lambda>h q. GeoServiceError ''Service timed out''),
      http_svc = (\<lambda>h s la lo. HttpRaises),
      clock = (\<lambda>h. ''2025-01-01 00:00:00''),
      repr_other = (\<lambda>v. ''?'')\<rparr>"

definition garbled_env :: env where
  "garbled_env =
     \<lparr>geocode_svc = (\<lambda>h q. GeoNoMatch),
      http_svc = (\<lambda>h s la lo. HttpJson (PInt 5)),
      clock = (\<lambda>h. ''2025-01-01 00:00:00''),
      repr_other = (\<lambda>v. ''?'')\<rparr>"

text \<open>Sheets, as \<open>pd.read_excel\<close> would deliver them.  \<open>oakland_row\<close> has an
  address outside San Francisco and Marin and no coordinates; \<open>geocoded_oakland_row\<close>
  is the same record with coordinates from an earlier run; \<open>blank_address_row\<close> has
  an empty street-address cell, which pandas reads as NaN.\<close>

definition oakland_row :: row where
  "oakland_row =
     [''Person Address'' \<mapsto> PStr ''1 Frank H Ogawa Plaza'',
      ''Person city'' \<mapsto> PStr ''Oakland'',
      ''Person Zip Code'' \<mapsto> PStr ''94612'']"

definition geocoded_oakland_row :: row where
  "geocoded_oakland_row =
     oakland_row(''Latitude'' \<mapsto> PFloat 37.8053, ''Longitude'' \<mapsto> PFloat (-122.2725))"

definition geocoded_sf_row :: row where
  "geocoded_sf_row =
     [''Person Address'' \<mapsto> PStr ''1 Dr Carlton B Goodlett Pl'',
      ''Person city'' \<mapsto> PStr ''SAN FRANCISCO'',
      ''Person Zip Code'' \<mapsto> PStr ''94102'',
      ''Latitude'' \<mapsto> PFloat 37.7793, ''Longitude'' \<mapsto> PFloat (-122.4193)]"

definition blank_address_row :: row where
  "blank_address_row =
     [''Person Address'' \<mapsto> PNaN,
      ''Person city'' \<mapsto> PStr ''Oakland'',
      ''Person Zip Code'' \<mapsto> PStr ''94612'']"

section \<open>The shape of what each step returns\<close>

lemma district_of_features_shape:
  "district_of_features data = Inr res \<Longrightarrow> \<exists>d. res = [(''district'', d)]"
  unfolding district_of_features_def then_e_def
  by (auto split: sum.splits if_splits)

lemma census_of_data_shape:
  "census_of_data data = Inr res \<Longrightarrow> \<exists>p t b. res = [(''puma'', p), (''tract'', t), (''block'', b)]"
  unfolding census_of_data_def then_e_def
  by (auto split: sum.splits if_splits)

lemma political_of_data_shape:
  "political_of_data data = Inr res \<Longrightarrow>
     \<exists>c a s. res = [(''congressional'', c), (''assembly'', a), (''senate'', s)]"
  unfolding political_of_data_def then_e_def
  by (auto split: sum.splits if_splits)

lemma get_sf_shape:
  "\<exists>d. get_sf_supervisorial_district env i lat lon st =
         ([(''district'', d)], emit i (CallHttp SF_Service lat lon) st)"
  unfolding get_sf_supervisorial_district_def Let_def
  by (auto split: http_reply.splits sum.splits dest: district_of_features_shape)

lemma get_marin_shape:
  "\<exists>d. get_marin_supervisor_district env i lat lon st =
         ([(''district'', d)], emit i (CallHttp Marin_Service lat lon) st)"
  unfolding get_marin_supervisor_district_def Let_def
  by (auto split: http_reply.splits sum.splits dest: district_of_features_shape)

lemma get_census_shape:
  "\<exists>p t b. get_census_data env i lat lon st =
         ([(''puma'', p), (''tract'', t), (''block'', b)], emit i (CallHttp Census_Service lat lon) st)"
  unfolding get_census_data_def Let_def
  by (auto split: http_reply.splits sum.splits dest: census_of_data_shape)

lemma get_political_shape:
  "\<exists>c a s. get_political_districts env i lat lon st =
         ([(''congressional'', c), (''assembly'', a), (''senate'', s)],
          emit i (CallHttp FCC_Service lat lon) st)"
  unfolding get_political_districts_def Let_def
  by (auto split: http_reply.splits sum.splits dest: political_of_data_shape)

lemma sf_step_cases:
  "sf_step env i city lat lon st =
     (if sf_match env city
      then (Some (KeyError ''supervisor''),
            df_at i ''SF_Supervisorial_District''
              (the (map_of (fst (get_sf_supervisorial_district env i lat lon st)) ''district''))
              (emit i (CallHttp SF_Service lat lon) st))
      else (None, st))"
  using get_sf_shape [of env i lat lon st]
  by (auto simp: sf_step_def and_then_def assign_item_def dict_item_def)

lemma marin_step_cases:
  "marin_step env i city lat lon st =
     (if marin_match env city
      then (Some (KeyError ''supervisor''),
            df_at i ''Marin_Supervisor_District''
              (the (map_of (fst (get_marin_supervisor_district env i lat lon st)) ''district''))
              (emit i (CallHttp Marin_Service lat lon) st))
      else (None, st))"
  using get_marin_shape [of env i lat lon st]
  by (auto simp: marin_step_def and_then_def assign_item_def dict_item_def)

lemma census_step_shape:
  "\<exists>p t b. census_step env i lat lon st =
     (None, df_at i ''Census_Block'' b (df_at i ''Census_Tract'' t (df_at i ''Census_PUMA'' p
              (emit i (CallHttp Census_Service lat lon) st))))"
  using get_census_shape [of env i lat lon st]
  by (fastforce simp: census_step_def and_then_def assign_item_def dict_item_def)

lemma political_step_shape:
  "\<exists>c a s. political_step env i lat lon st =
     (None, df_at i ''CA_Senate_District'' s (df_at i ''CA_Assembly_District'' a
             (df_at i ''Congressional_District'' c
              (emit i (CallHttp FCC_Service lat lon) st))))"
  using get_political_shape [of env i lat lon st]
  by (fastforce simp: political_step_def and_then_def assign_item_def dict_item_def)


lemma lookups_cases [case_names unbound sf marin normal]:
  obtains
    "v_city st = None"
      "lookups env i lat lon st = (Raised (UnboundLocalError ''city''), st)"
  | city d where "v_city st = Some city" "sf_match env city"
      "lookups env i lat lon st =
         (Raised (KeyError ''supervisor''),
          df_at i ''SF_Supervisorial_District'' d (emit i (CallHttp SF_Service lat lon) st))"
  | city d where "v_city st = Some city" "\<not> sf_match env city" "marin_match env city"
      "lookups env i lat lon st =
         (Raised (KeyError ''supervisor''),
          df_at i ''Marin_Supervisor_District'' d (emit i (CallHttp Marin_Service lat lon) st))"
  | city p t b c a s where "v_city st = Some city" "\<not> sf_match env city"
      "\<not> marin_match env city"
      "lookups env i lat lon st =
         (Normal,
          count_and_save i (stamp env i
            (df_at i ''CA_Senate_District'' s (df_at i ''CA_Assembly_District'' a
            (df_at i ''Congressional_District'' c
            (emit i (CallHttp FCC_Service lat lon)
            (df_at i ''Census_Block'' b (df_at i ''Census_Tract'' t
            (df_at i ''Census_PUMA'' p
            (emit i (CallHttp Census_Service lat lon) st))))))))))"
proof (cases "v_city st")
  case None
  then show ?thesis using that(1) by (simp add: lookups_def)
next
  case (Some city)
  show ?thesis
  proof (cases "sf_match env city")
    case True
    with Some show ?thesis using that(2)
      by (simp add: lookups_def sf_step_cases and_then_def)
  next
    case nsf: False
    show ?thesis
    proof (cases "marin_match env city")
      case True
      with Some nsf show ?thesis using that(3)
        by (simp add: lookups_def sf_step_cases marin_step_cases and_then_def)
    next
      case False
      obtain p t b where cs: "census_step env i lat lon st =
          (None, df_at i ''Census_Block'' b (df_at i ''Census_Tract'' t
             (df_at i ''Census_PUMA'' p (emit i (CallHttp Census_Service lat lon) st))))"
        using census_step_shape by blast
      let ?st2 = "df_at i ''Census_Block'' b (df_at i ''Census_Tract'' t
             (df_at i ''Census_PUMA'' p (emit i (CallHttp Census_Service lat lon) st)))"
      obtain c a s where ps: "political_step env i lat lon ?st2 =
          (None, df_at i ''CA_Senate_District'' s (df_at i ''CA_Assembly_District'' a
             (df_at i ''Congressional_District'' c
              (emit i (CallHttp FCC_Service lat lon) ?st2))))"
        using political_step_shape by blast
      from Some nsf False cs ps show ?thesis using that(4)
        by (simp add: lookups_def sf_step_cases marin_step_cases and_then_def)
    qed
  qed
qed

subsection \<open>What the primitive updates leave alone\<close>

lemma df_at_simps [simp]:
  "trace (df_at i c v st) = trace st"
  "processed (df_at i c v st) = processed st"
  "v_city (df_at i c v st) = v_city st"
  "length (df (df_at i c v st)) = length (df st)"
  by (simp_all add: df_at_def)

lemma df_at_other [simp]: "j \<noteq> i \<Longrightarrow> df (df_at i c v st) ! j = df st ! j"
  by (simp add: df_at_def)

lemma df_at_same [simp]:
  "i < length (df st) \<Longrightarrow> df (df_at i c v st) ! i = (df st ! i)(c \<mapsto> v)"
  by (simp add: df_at_def)

lemma emit_simps [simp]:
  "trace (emit i c st) = trace st @ [(i, c)]"
  "processed (emit i c st) = processed st"
  "v_city (emit i c st) = v_city st"
  "df (emit i c st) = df st"
  by (simp_all add: emit_def)

lemma stamp_simps [simp]:
  "trace (stamp env i st) = trace st @ [(i, CallNow)]"
  "processed (stamp env i st) = processed st"
  "v_city (stamp env i st) = v_city st"
  "length (df (stamp env i st)) = length (df st)"
  "j \<noteq> i \<Longrightarrow> df (stamp env i st) ! j = df st ! j"
  "i < length (df st) \<Longrightarrow>
     df (stamp env i st) ! i = (df st ! i)(''Last_Updated'' \<mapsto> PStr (clock env (trace st)))"
  by (simp_all add: stamp_def)

lemma count_and_save_simps [simp]:
  "trace (count_and_save i st) =
     trace st @ (if (processed st + 1) mod 10 = 0 then [(i, CallSave)] else [])"
  "processed (count_and_save i st) = processed st + 1"
  "v_city (count_and_save i st) = v_city st"
  "df (count_and_save i st) = df st"
  unfolding count_and_save_def save_progress_def Let_def emit_def
  by (simp_all del: One_nat_def add_Suc_right)

lemma geocode_address_cases [case_names found failed]:
  obtains la lo a where
      "geocode_svc env (trace st) (full_address env address city zip_code) = GeoLocation la lo a"
      "geocode_address env i address city zip_code st =
         ([(''latitude'', PFloat la), (''longitude'', PFloat lo),
           (''formatted_address'', PStr a), (''status'', PStr ''Success'')],
          emit i (CallGeocode (full_address env address city zip_code)) st)"
  | s where "s \<noteq> ''Success''"
      "\<forall>la lo a. geocode_svc env (trace st) (full_address env address city zip_code)
          \<noteq> GeoLocation la lo a"
      "geocode_address env i address city zip_code st =
         ([(''status'', PStr s)],
          emit i (CallGeocode (full_address env address city zip_code)) st)"
proof (cases "geocode_svc env (trace st) (full_address env address city zip_code)")
  case (GeoLocation la lo a)
  then show ?thesis using that(1) by (simp add: geocode_address_def Let_def)
next
  case GeoNoMatch
  then show ?thesis using that(2) [of "''Not Found''"] by (simp add: geocode_address_def Let_def)
next
  case (GeoServiceError m)
  then show ?thesis using that(2) [of "''Error: '' @ m"]
    by (simp add: geocode_address_def Let_def)
next
  case (GeoOtherError m)
  then show ?thesis using that(2) [of "''Unexpected Error: '' @ m"]
    by (simp add: geocode_address_def Let_def)
qed

lemma record_body_cases [case_names skip missing failed geocoded]:
  fixes env i st
  defines "row \<equiv> df st ! i"
  defines "address \<equiv> row_get row ''Person Address'' (PStr [])"
  defines "city \<equiv> row_get row ''Person city'' (PStr [])"
  defines "zip_code \<equiv> row_get row ''Person Zip Code'' (PStr [])"
  defines "st0 \<equiv> st\<lparr>v_city := Some city\<rparr>"
  defines "q \<equiv> full_address env address city zip_code"
  obtains
    "pd_notna (row_get row ''Latitude'' PNone)" "pd_notna (row_get row ''Longitude'' PNone)"
      "record_body env i st =
         lookups env i (row_get row ''Latitude'' PNone) (row_get row ''Longitude'' PNone) st"
  | "\<not> (pd_notna (row_get row ''Latitude'' PNone) \<and> pd_notna (row_get row ''Longitude'' PNone))"
      "\<not> (py_truthy address \<and> py_truthy city \<and> py_truthy zip_code)"
      "record_body env i st =
         (Continue, df_at i ''Geocoding_Status'' (PStr ''Missing Address Data'') st0)"
  | s where
      "\<not> (pd_notna (row_get row ''Latitude'' PNone) \<and> pd_notna (row_get row ''Longitude'' PNone))"
      "py_truthy address" "py_truthy city" "py_truthy zip_code" "s \<noteq> ''Success''"
      "record_body env i st =
         (Continue, df_at i ''Geocoding_Status'' (PStr s) (emit i (CallGeocode q) st0))"
  | la lo a where
      "\<not> (pd_notna (row_get row ''Latitude'' PNone) \<and> pd_notna (row_get row ''Longitude'' PNone))"
      "py_truthy address" "py_truthy city" "py_truthy zip_code"
      "record_body env i st =
         lookups env i (PFloat la) (PFloat lo)
           (df_at i ''Geocoding_Status'' (PStr ''Success'')
           (df_at i ''Geocoded_Address'' (PStr a)
           (df_at i ''Longitude'' (PFloat lo)
           (df_at i ''Latitude'' (PFloat la)
           (emit i (CallGeocode q) st0)))))"
proof (cases "pd_notna (row_get row ''Latitude'' PNone) \<and> pd_notna (row_get row ''Longitude'' PNone)")
  case True
  then have "record_body env i st =
         lookups env i (row_get row ''Latitude'' PNone) (row_get row ''Longitude'' PNone) st"
    by (simp add: record_body_def row_def Let_def)
  with True show ?thesis using that(1) by blast
next
  case nocoord: False
  then have body: "record_body env i st =
      (if \<not> (py_truthy address \<and> py_truthy city \<and> py_truthy zip_code)
       then (Continue, df_at i ''Geocoding_Status'' (PStr ''Missing Address Data'') st0)
       else (case geocode_address env i address city zip_code st0 of
               (geocode_result, st1) \<Rightarrow>
                 (case dict_item geocode_result ''status'' of
                    Inl e \<Rightarrow> (Raised e, st1)
                  | Inr s \<Rightarrow>
                      if s = PStr ''Success'' then store_geocode env i geocode_result st1
                      else (Continue, df_at i ''Geocoding_Status'' s st1))))"
    unfolding record_body_def Let_def row_def address_def city_def zip_code_def st0_def
    by (simp only: if_False)
  show ?thesis
  proof (cases "py_truthy address \<and> py_truthy city \<and> py_truthy zip_code")
    case False
    then have "record_body env i st =
         (Continue, df_at i ''Geocoding_Status'' (PStr ''Missing Address Data'') st0)"
      by (simp only: body not_False_eq_True if_True)
    with nocoord False show ?thesis using that(2) by blast
  next
    case True
    show ?thesis
    proof (cases rule: geocode_address_cases [of env st0 address city zip_code i])
      case (found la lo a)
      with True have "record_body env i st =
         lookups env i (PFloat la) (PFloat lo)
           (df_at i ''Geocoding_Status'' (PStr ''Success'')
           (df_at i ''Geocoded_Address'' (PStr a)
           (df_at i ''Longitude'' (PFloat lo)
           (df_at i ''Latitude'' (PFloat la)
           (emit i (CallGeocode q) st0)))))"
        by (simp add: body q_def dict_item_def store_geocode_def Let_def)
      with nocoord True show ?thesis using that(4) by blast
    next
      case (failed s)
      with True have "record_body env i st =
         (Continue, df_at i ''Geocoding_Status'' (PStr s) (emit i (CallGeocode q) st0))"
        by (simp add: body q_def dict_item_def)
      with nocoord True failed(1) show ?thesis using that(3) by blast
    qed
  qed
qed

subsection \<open>Counting and filtering events\<close>

lemma calls_for_simps [simp]:
  "calls_for i [] = []"
  "calls_for i (xs @ ys) = calls_for i xs @ calls_for i ys"
  "calls_for i ((j, c) # xs) = (if j = i then c # calls_for i xs else calls_for i xs)"
  by (simp_all add: calls_for_def)

lemma count_call_simps [simp]:
  "count_call c [] = 0"
  "count_call c (xs @ ys) = count_call c xs + count_call c ys"
  "count_call c ((j, c') # xs) = (if c' = c then Suc (count_call c xs) else count_call c xs)"
  by (simp_all add: count_call_def)

subsection \<open>What one pass through the lookups changes\<close>

lemma lookups_frame:
  "length (df (snd (lookups env i lat lon st))) = length (df st)"
  "j \<noteq> i \<Longrightarrow> df (snd (lookups env i lat lon st)) ! j = df st ! j"
  "v_city (snd (lookups env i lat lon st)) = v_city st"
  "calls_for j (trace (snd (lookups env i lat lon st))) =
     (if j = i then calls_for i (trace (snd (lookups env i lat lon st))) else calls_for j (trace st))"
  by (cases rule: lookups_cases [of st env i lat lon]; simp)+

lemma lookups_core:
  assumes "i < length (df st)"
    and "c = ''Latitude'' \<or> c = ''Longitude'' \<or> c = ''Geocoding_Status''"
  shows "(df (snd (lookups env i lat lon st)) ! i) c = (df st ! i) c"
  using assms by (cases rule: lookups_cases [of st env i lat lon]) auto

subsection \<open>One iteration touches one record\<close>

lemma record_body_frame:
  "length (df (snd (record_body env i st))) = length (df st)"
  "j \<noteq> i \<Longrightarrow> df (snd (record_body env i st)) ! j = df st ! j"
  "j \<noteq> i \<Longrightarrow> calls_for j (trace (snd (record_body env i st))) = calls_for j (trace st)"
  by (cases rule: record_body_cases [of st i env]; simp add: lookups_frame)+

lemma process_record_unfold:
  "process_record env i st =
     (case fst (record_body env i st) of
        Raised e \<Rightarrow>
          df_at i ''Geocoding_Status'' (PStr (''Processing Error: '' @ str_exn e))
            (snd (record_body env i st))
      | _ \<Rightarrow> snd (record_body env i st))"
  by (cases "record_body env i st") (auto simp: process_record_def split: outcome.splits)

lemma process_record_frame:
  "length (df (process_record env i st)) = length (df st)"
  "j \<noteq> i \<Longrightarrow> df (process_record env i st) ! j = df st ! j"
  "j \<noteq> i \<Longrightarrow> calls_for j (trace (process_record env i st)) = calls_for j (trace st)"
  by (simp_all add: process_record_unfold record_body_frame split: outcome.splits)

lemma process_loop_frame:
  "length (df (process_loop env idxs st)) = length (df st)"
  "j \<notin> set idxs \<Longrightarrow> df (process_loop env idxs st) ! j = df st ! j"
  "j \<notin> set idxs \<Longrightarrow> calls_for j (trace (process_loop env idxs st)) = calls_for j (trace st)"
  by (induction idxs arbitrary: st) (simp_all add: process_record_frame)

lemma process_loop_append:
  "process_loop env (xs @ ys) st = process_loop env ys (process_loop env xs st)"
  by (induction xs arbitrary: st) simp_all

lemma upt_split3: "i < n \<Longrightarrow> [0..<n] = [0..<i] @ i # [Suc i..<n]"
  by (metis le_add1 le_add_same_cancel1 less_imp_add_positive upt_add_eq_append upt_conv_Cons)

lemma process_rows_split:
  "i < length rows \<Longrightarrow>
     process_rows env rows =
       process_loop env [Suc i..<length rows] (process_record env i (reached env rows i))"
  by (simp add: process_rows_def reached_def upt_split3 [of i "length rows"] process_loop_append)

lemma reached_frame:
  "length (df (reached env rows i)) = length rows"
  "df (reached env rows i) ! i = rows ! i"
  "calls_for i (trace (reached env rows i)) = []"
  by (simp_all add: reached_def process_loop_frame init_state_def)

lemma process_rows_record:
  assumes "i < length rows"
  shows "df (process_rows env rows) ! i = df (process_record env i (reached env rows i)) ! i"
    and "calls_for i (trace (process_rows env rows)) =
           calls_for i (trace (process_record env i (reached env rows i)))"
  using assms by (simp_all add: process_rows_split process_loop_frame)

subsection \<open>The checkpoint count\<close>

lemma tally_simps [simp]:
  "tally (df_at i c v st) = tally st"
  "tally (st\<lparr>v_city := x\<rparr>) = tally st"
  "tally (emit i (CallGeocode q) st) = tally st"
  "tally (emit i (CallHttp svc lat lon) st) = tally st"
  by (simp_all add: tally_def)

lemma tally_finish: "tally st \<Longrightarrow> tally (count_and_save i (stamp env i st))"
  by (simp add: tally_def div_Suc)

lemma lookups_tally: "tally st \<Longrightarrow> tally (snd (lookups env i lat lon st))"
  by (cases rule: lookups_cases [of st env i lat lon]) (simp_all add: tally_finish)

lemma record_body_tally: "tally st \<Longrightarrow> tally (snd (record_body env i st))"
  by (cases rule: record_body_cases [of st i env]) (simp_all add: lookups_tally)

lemma process_record_tally: "tally st \<Longrightarrow> tally (process_record env i st)"
  by (simp add: process_record_unfold record_body_tally split: outcome.splits)

lemma process_loop_tally: "tally st \<Longrightarrow> tally (process_loop env idxs st)"
  by (induction idxs arbitrary: st) (simp_all add: process_record_tally)

lemma init_state_tally: "tally (init_state rows)"
  by (simp add: tally_def init_state_def)

subsection \<open>The status invariant on the record being processed\<close>

lemma status_ok_not_success:
  "s \<noteq> ''Success'' \<Longrightarrow> status_ok (r(''Geocoding_Status'' \<mapsto> PStr s))"
  by (simp add: status_ok_def)

lemma status_ok_core:
  assumes "r' ''Latitude'' = r ''Latitude''" "r' ''Longitude'' = r ''Longitude''"
    and "r' ''Geocoding_Status'' = r ''Geocoding_Status''"
  shows "status_ok r' = status_ok r"
  using assms by (simp add: status_ok_def row_get_def)

lemma lookups_status_ok:
  assumes "i < length (df st)"
  shows "status_ok (df (snd (lookups env i lat lon st)) ! i) = status_ok (df st ! i)"
  by (rule status_ok_core) (simp_all add: lookups_core assms)

lemma record_body_status_ok:
  assumes "i < length (df st)" and "status_ok (df st ! i)"
  shows "status_ok (df (snd (record_body env i st)) ! i)"
proof (cases rule: record_body_cases [of st i env])
  case skip
  with assms show ?thesis by (simp add: lookups_status_ok)
next
  case missing
  with assms show ?thesis by (simp add: status_ok_not_success)
next
  case (failed s)
  with assms show ?thesis by (simp add: status_ok_not_success)
next
  case (geocoded la lo a)
  with assms show ?thesis
    by (simp add: lookups_status_ok) (simp add: status_ok_def row_get_def)
qed

lemma process_record_status_ok:
  assumes "i < length (df st)" and "status_ok (df st ! i)"
  shows "status_ok (df (process_record env i st) ! i)"
  using assms
  by (simp add: process_record_unfold record_body_status_ok record_body_frame
        status_ok_not_success split: outcome.splits)

lemma process_record_keeps_invariant:
  assumes "i < length (df st)" and "list_all status_ok (df st)"
  shows "list_all status_ok (df (process_record env i st))"
  unfolding list_all_length
proof (intro allI impI)
  fix j assume "j < length (df (process_record env i st))"
  then have j: "j < length (df st)" by (simp add: process_record_frame)
  with assms(2) have okj: "status_ok (df st ! j)" by (simp add: list_all_length)
  show "status_ok (df (process_record env i st) ! j)"
  proof (cases "j = i")
    case True
    with assms(1) okj show ?thesis by (simp add: process_record_status_ok)
  next
    case False
    with okj show ?thesis by (simp add: process_record_frame)
  qed
qed

lemma process_loop_keeps_invariant:
  assumes "\<forall>i\<in>set idxs. i < length (df st)" and "list_all status_ok (df st)"
  shows "list_all status_ok (df (process_loop env idxs st))"
  using assms
  by (induction idxs arbitrary: st)
     (simp_all add: process_record_keeps_invariant process_record_frame)

lemma process_rows_keeps_invariant:
  "list_all status_ok rows \<Longrightarrow> list_all status_ok (df (process_rows env rows))"
  by (simp add: process_rows_def process_loop_keeps_invariant init_state_def)

subsection \<open>The geocoding path\<close>

lemma geocode_address_snd:
  "snd (geocode_address env i address city zip_code st) =
     emit i (CallGeocode (full_address env address city zip_code)) st"
  by (simp add: geocode_address_def Let_def)

lemma geocode_address_fst_v_city:
  "fst (geocode_address env i address city zip_code (st\<lparr>v_city := x\<rparr>)) =
     fst (geocode_address env i address city zip_code st)"
  by (simp add: geocode_address_def Let_def emit_def)

lemma record_body_no_coords:
  fixes env i st
  defines "row \<equiv> df st ! i"
  defines "address \<equiv> row_get row ''Person Address'' (PStr [])"
  defines "city \<equiv> row_get row ''Person city'' (PStr [])"
  defines "zip_code \<equiv> row_get row ''Person Zip Code'' (PStr [])"
  defines "st0 \<equiv> st\<lparr>v_city := Some city\<rparr>"
  assumes "\<not> (pd_notna (row_get row ''Latitude'' PNone) \<and> pd_notna (row_get row ''Longitude'' PNone))"
  shows "record_body env i st =
      (if \<not> (py_truthy address \<and> py_truthy city \<and> py_truthy zip_code)
       then (Continue, df_at i ''Geocoding_Status'' (PStr ''Missing Address Data'') st0)
       else (case dict_item (fst (geocode_address env i address city zip_code st)) ''status'' of
               Inl e \<Rightarrow>
                 (Raised e, emit i (CallGeocode (full_address env address city zip_code)) st0)
             | Inr s \<Rightarrow>
                 if s = PStr ''Success''
                 then store_geocode env i (fst (geocode_address env i address city zip_code st))
                        (emit i (CallGeocode (full_address env address city zip_code)) st0)
                 else (Continue, df_at i ''Geocoding_Status'' s
                        (emit i (CallGeocode (full_address env address city zip_code)) st0))))"
proof -
  have "record_body env i st =
      (if \<not> (py_truthy address \<and> py_truthy city \<and> py_truthy zip_code)
       then (Continue, df_at i ''Geocoding_Status'' (PStr ''Missing Address Data'') st0)
       else (case geocode_address env i address city zip_code st0 of
               (geocode_result, st1) \<Rightarrow>
                 (case dict_item geocode_result ''status'' of
                    Inl e \<Rightarrow> (Raised e, st1)
                  | Inr s \<Rightarrow>
                      if s = PStr ''Success'' then store_geocode env i geocode_result st1
                      else (Continue, df_at i ''Geocoding_Status'' s st1))))"
    using assms(6)
    unfolding record_body_def Let_def row_def address_def city_def zip_code_def st0_def
    by (simp only: if_False)
  also have "geocode_address env i address city zip_code st0 =
     (fst (geocode_address env i address city zip_code st),
      emit i (CallGeocode (full_address env address city zip_code)) st0)"
    by (simp add: prod_eq_iff geocode_address_snd st0_def geocode_address_fst_v_city)
  finally show ?thesis by simp
qed

subsection \<open>Records without an address\<close>

lemma missing_address_ends_record:
  fixes env rows i
  defines "address \<equiv> row_get (rows ! i) ''Person Address'' (PStr [])"
  defines "city \<equiv> row_get (rows ! i) ''Person city'' (PStr [])"
  defines "zip_code \<equiv> row_get (rows ! i) ''Person Zip Code'' (PStr [])"
  assumes "i < length rows"
    and "\<not> (pd_notna (row_get (rows ! i) ''Latitude'' PNone) \<and>
            pd_notna (row_get (rows ! i) ''Longitude'' PNone))"
    and "\<not> py_truthy address \<or> \<not> py_truthy city \<or> \<not> py_truthy zip_code"
  shows "df (process_rows env rows) ! i =
           (rows ! i)(''Geocoding_Status'' \<mapsto> PStr ''Missing Address Data'')
       \<and> calls_for i (trace (process_rows env rows)) = []"
proof -
  let ?st = "reached env rows i"
  have row: "df ?st ! i = rows ! i" and len: "i < length (df ?st)"
    using assms(4) by (simp_all add: reached_frame)
  have "record_body env i ?st =
      (Continue, df_at i ''Geocoding_Status'' (PStr ''Missing Address Data'')
         (?st\<lparr>v_city := Some city\<rparr>))"
    using assms(5,6) record_body_no_coords [of ?st i env]
    by (auto simp: row address_def city_def zip_code_def)
  then have "process_record env i ?st =
      df_at i ''Geocoding_Status'' (PStr ''Missing Address Data'') (?st\<lparr>v_city := Some city\<rparr>)"
    by (simp add: process_record_unfold)
  with assms(4) len row show ?thesis
    by (simp add: process_rows_record reached_frame)
qed

subsection \<open>Resolvers: no match against failure\<close>

lemma resolve_unfold:
  "fst (resolve svc env i lat lon st) =
     (case http_svc env (trace st) svc lat lon of
        HttpRaises \<Rightarrow> all_fields svc (PStr ''Error'')
      | HttpJson data \<Rightarrow>
          (case parse_reply svc data of
             Inl e \<Rightarrow> all_fields svc (PStr ''Error'')
           | Inr res \<Rightarrow> res))"
  by (cases svc)
     (auto simp: get_sf_supervisorial_district_def get_marin_supervisor_district_def
        get_census_data_def get_political_districts_def all_fields_def Let_def
        split: http_reply.splits sum.splits)

lemma features_empty:
  "has_empty_list ''features'' data \<Longrightarrow> district_of_features data = Inr [(''district'', PNone)]"
  by (cases data) (simp_all add: has_empty_list_def district_of_features_def then_e_def dict_item_def)

lemma results_empty:
  "has_empty_list ''results'' data \<Longrightarrow>
     political_of_data data =
       Inr [(''congressional'', PNone), (''assembly'', PNone), (''senate'', PNone)]"
  by (cases data) (simp_all add: has_empty_list_def political_of_data_def then_e_def dict_item_def)

lemma census_level_empty:
  "level_empty g level \<Longrightarrow> census_level (PDict g) level field = Inr PNone"
  by (auto simp: level_empty_def census_level_def then_e_def dict_item_def)

lemma census_empty:
  assumes "empty_body Census_Service data"
  shows "census_of_data data = Inr [(''puma'', PNone), (''tract'', PNone), (''block'', PNone)]"
proof -
  from assms obtain d r g where
    "data = PDict d" "map_of d ''result'' = Some (PDict r)"
    "map_of r ''geographies'' = Some (PDict g)"
    "level_empty g ''Public Use Microdata Areas''" "level_empty g ''Census Tracts''"
    "level_empty g ''Census Blocks''"
    by (auto split: pyval.splits option.splits)
  then show ?thesis
    by (simp add: census_of_data_def then_e_def dict_item_def census_level_empty)
qed

lemma parse_empty: "empty_body svc data \<Longrightarrow> parse_reply svc data = Inr (all_fields svc PNone)"
  by (cases svc) (auto simp: features_empty results_empty census_empty all_fields_def)

subsection \<open>Records that run to the stamp\<close>

lemma process_record_completes:
  assumes "elsewhere env (df st ! i)" and "always_found env"
  shows "count_call CallNow (trace (process_record env i st)) =
           Suc (count_call CallNow (trace st))"
proof -
  let ?row = "df st ! i"
  let ?address = "row_get ?row ''Person Address'' (PStr [])"
  let ?city = "row_get ?row ''Person city'' (PStr [])"
  let ?zip = "row_get ?row ''Person Zip Code'' (PStr [])"
  let ?q = "full_address env ?address ?city ?zip"
  from assms(2) obtain la lo a where found: "geocode_svc env (trace st) ?q = GeoLocation la lo a"
    unfolding always_found_def by blast
  then have g: "fst (geocode_address env i ?address ?city ?zip st) =
      [(''latitude'', PFloat la), (''longitude'', PFloat lo),
       (''formatted_address'', PStr a), (''status'', PStr ''Success'')]"
    by (simp add: geocode_address_def Let_def)
  let ?st4 = "df_at i ''Geocoding_Status'' (PStr ''Success'')
           (df_at i ''Geocoded_Address'' (PStr a)
           (df_at i ''Longitude'' (PFloat lo)
           (df_at i ''Latitude'' (PFloat la)
           (emit i (CallGeocode ?q) (st\<lparr>v_city := Some ?city\<rparr>)))))"
  have body: "record_body env i st = lookups env i (PFloat la) (PFloat lo) ?st4"
    using assms(1) record_body_no_coords [of st i env]
    by (simp add: elsewhere_def g dict_item_def store_geocode_def Let_def)
  have city: "v_city ?st4 = Some ?city" by simp
  have "fst (lookups env i (PFloat la) (PFloat lo) ?st4) = Normal \<and>
        count_call CallNow (trace (snd (lookups env i (PFloat la) (PFloat lo) ?st4))) =
          Suc (count_call CallNow (trace st))"
    using assms(1) city
    by (cases rule: lookups_cases [of ?st4 env i "PFloat la" "PFloat lo"])
       (simp_all add: elsewhere_def)
  with body show ?thesis by (simp add: process_record_unfold)
qed

lemma process_loop_completes:
  assumes "always_found env" and "distinct idxs"
    and "\<forall>i\<in>set idxs. elsewhere env (df st ! i)"
  shows "count_call CallNow (trace (process_loop env idxs st)) =
           count_call CallNow (trace st) + length idxs"
  using assms(2,3)
proof (induction idxs arbitrary: st)
  case Nil
  then show ?case by simp
next
  case (Cons i idxs)
  have "\<forall>j\<in>set idxs. elsewhere env (df (process_record env i st) ! j)"
  proof
    fix j assume j: "j \<in> set idxs"
    with Cons.prems have "j \<noteq> i" by auto
    then have "df (process_record env i st) ! j = df st ! j"
      by (rule process_record_frame)
    with j Cons.prems show "elsewhere env (df (process_record env i st) ! j)" by simp
  qed
  with Cons have "count_call CallNow (trace (process_loop env idxs (process_record env i st))) =
      count_call CallNow (trace (process_record env i st)) + length idxs"
    by simp
  with Cons.prems assms(1) show ?case by (simp add: process_record_completes)
qed

lemma process_rows_completes:
  assumes "always_found env" and "\<forall>r\<in>set rows. elsewhere env r"
  shows "count_call CallNow (trace (process_rows env rows)) = length rows"
  using assms process_loop_completes [of env "[0..<length rows]" "init_state rows"]
  by (simp add: process_rows_def init_state_def)

lemma process_record_elsewhere:
  fixes env i st
  defines "q \<equiv> full_address env (row_get (df st ! i) ''Person Address'' (PStr []))
                 (row_get (df st ! i) ''Person city'' (PStr []))
                 (row_get (df st ! i) ''Person Zip Code'' (PStr []))"
  assumes "elsewhere env (df st ! i)" and "geocode_svc env (trace st) q = GeoLocation la lo a"
  shows "\<exists>p t b c h s.
     process_record env i st =
       count_and_save i (stamp env i
         (df_at i ''CA_Senate_District'' s (df_at i ''CA_Assembly_District'' h
         (df_at i ''Congressional_District'' c
         (emit i (CallHttp FCC_Service (PFloat la) (PFloat lo))
         (df_at i ''Census_Block'' b (df_at i ''Census_Tract'' t
         (df_at i ''Census_PUMA'' p
         (emit i (CallHttp Census_Service (PFloat la) (PFloat lo))
         (df_at i ''Geocoding_Status'' (PStr ''Success'')
         (df_at i ''Geocoded_Address'' (PStr a)
         (df_at i ''Longitude'' (PFloat lo)
         (df_at i ''Latitude'' (PFloat la)
         (emit i (CallGeocode q)
            (st\<lparr>v_city := Some (row_get (df st ! i) ''Person city'' (PStr []))\<rparr>)))))))))))))))"
proof -
  let ?address = "row_get (df st ! i) ''Person Address'' (PStr [])"
  let ?city = "row_get (df st ! i) ''Person city'' (PStr [])"
  let ?zip = "row_get (df st ! i) ''Person Zip Code'' (PStr [])"
  from assms(3) have g: "fst (geocode_address env i ?address ?city ?zip st) =
      [(''latitude'', PFloat la), (''longitude'', PFloat lo),
       (''formatted_address'', PStr a), (''status'', PStr ''Success'')]"
    by (simp add: geocode_address_def Let_def q_def)
  let ?st4 = "df_at i ''Geocoding_Status'' (PStr ''Success'')
           (df_at i ''Geocoded_Address'' (PStr a)
           (df_at i ''Longitude'' (PFloat lo)
           (df_at i ''Latitude'' (PFloat la)
           (emit i (CallGeocode q) (st\<lparr>v_city := Some ?city\<rparr>)))))"
  have body: "record_body env i st = lookups env i (PFloat la) (PFloat lo) ?st4"
    using assms(2) record_body_no_coords [of st i env]
    by (simp add: elsewhere_def g dict_item_def store_geocode_def Let_def q_def)
  have city: "v_city ?st4 = Some ?city" by simp
  show ?thesis
  proof (cases rule: lookups_cases [of ?st4 env i "PFloat la" "PFloat lo"])
    case unbound
    with city show ?thesis by simp
  next
    case (sf city d)
    with city assms(2) show ?thesis by (simp add: elsewhere_def)
  next
    case (marin city d)
    with city assms(2) show ?thesis by (simp add: elsewhere_def)
  next
    case (normal city p t b c h s)
    with body have "process_record env i st =
       count_and_save i (stamp env i
         (df_at i ''CA_Senate_District'' s (df_at i ''CA_Assembly_District'' h
         (df_at i ''Congressional_District'' c
         (emit i (CallHttp FCC_Service (PFloat la) (PFloat lo))
         (df_at i ''Census_Block'' b (df_at i ''Census_Tract'' t
         (df_at i ''Census_PUMA'' p
         (emit i (CallHttp Census_Service (PFloat la) (PFloat lo)) ?st4)))))))))"
      by (simp add: process_record_unfold)
    then show ?thesis by blast
  qed
qed

lemma elsewhere_record_is_enriched:
  fixes env rows i
  defines "q \<equiv> full_address env (row_get (rows ! i) ''Person Address'' (PStr []))
                 (row_get (rows ! i) ''Person city'' (PStr []))
                 (row_get (rows ! i) ''Person Zip Code'' (PStr []))"
  assumes "i < length rows" and "elsewhere env (rows ! i)"
    and "geocode_svc env (trace (reached env rows i)) q = GeoLocation la lo a"
  shows "calls_for i (trace (process_rows env rows)) =
           [CallGeocode q,
            CallHttp Census_Service (PFloat la) (PFloat lo),
            CallHttp FCC_Service (PFloat la) (PFloat lo),
            CallNow]
            @ (if (processed (reached env rows i) + 1) mod 10 = 0 then [CallSave] else [])
       \<and> map (df_cell (process_rows env rows) i)
            [''Geocoding_Status'', ''Latitude'', ''Longitude'', ''Geocoded_Address''] =
           [Some (PStr ''Success''), Some (PFloat la), Some (PFloat lo), Some (PStr a)]"
proof -
  let ?st = "reached env rows i"
  have row: "df ?st ! i = rows ! i" and len: "i < length (df ?st)"
    and none: "calls_for i (trace ?st) = []"
    using assms(2) by (simp_all add: reached_frame)
  have "\<exists>p t b c h s.
     process_record env i ?st =
       count_and_save i (stamp env i
         (df_at i ''CA_Senate_District'' s (df_at i ''CA_Assembly_District'' h
         (df_at i ''Congressional_District'' c
         (emit i (CallHttp FCC_Service (PFloat la) (PFloat lo))
         (df_at i ''Census_Block'' b (df_at i ''Census_Tract'' t
         (df_at i ''Census_PUMA'' p
         (emit i (CallHttp Census_Service (PFloat la) (PFloat lo))
         (df_at i ''Geocoding_Status'' (PStr ''Success'')
         (df_at i ''Geocoded_Address'' (PStr a)
         (df_at i ''Longitude'' (PFloat lo)
         (df_at i ''Latitude'' (PFloat la)
         (emit i (CallGeocode q)
            (?st\<lparr>v_city := Some (row_get (rows ! i) ''Person city'' (PStr []))\<rparr>)))))))))))))))"
    using process_record_elsewhere [of env ?st i la lo a] assms(3,4)
    by (simp add: row q_def)
  with assms(2) len none show ?thesis
    by (auto simp: process_rows_record df_cell_def)
qed

subsection \<open>What happens to a record that is geocoded in this run\<close>

lemma geocoded_record_outcome:
  fixes env rows i
  assumes "i < length rows" and "wants_geocoding (rows ! i)"
    and "geocode_svc env (trace (reached env rows i))
           (full_address env (row_get (rows ! i) ''Person Address'' (PStr []))
              (row_get (rows ! i) ''Person city'' (PStr []))
              (row_get (rows ! i) ''Person Zip Code'' (PStr []))) = GeoLocation la lo a"
  shows "calls_for i (trace (process_rows env rows)) =
           CallGeocode
             (full_address env (row_get (rows ! i) ''Person Address'' (PStr []))
                (row_get (rows ! i) ''Person city'' (PStr []))
                (row_get (rows ! i) ''Person Zip Code'' (PStr []))) #
           (if sf_match env (row_get (rows ! i) ''Person city'' (PStr []))
            then [CallHttp SF_Service (PFloat la) (PFloat lo)]
            else if marin_match env (row_get (rows ! i) ''Person city'' (PStr []))
            then [CallHttp Marin_Service (PFloat la) (PFloat lo)]
            else [CallHttp Census_Service (PFloat la) (PFloat lo),
                  CallHttp FCC_Service (PFloat la) (PFloat lo), CallNow]
                 @ (if (processed (reached env rows i) + 1) mod 10 = 0 then [CallSave] else []))
       \<and> df_cell (process_rows env rows) i ''Geocoding_Status'' =
           Some (PStr (if sf_match env (row_get (rows ! i) ''Person city'' (PStr [])) \<or>
                          marin_match env (row_get (rows ! i) ''Person city'' (PStr []))
                       then ''Processing Error: '' @ [CHR 0x27] @ ''supervisor'' @ [CHR 0x27]
                       else ''Success''))"
proof -
  let ?st = "reached env rows i"
  let ?city = "row_get (rows ! i) ''Person city'' (PStr [])"
  let ?q = "full_address env (row_get (rows ! i) ''Person Address'' (PStr [])) ?city
              (row_get (rows ! i) ''Person Zip Code'' (PStr []))"
  let ?address = "row_get (rows ! i) ''Person Address'' (PStr [])"
  let ?zip = "row_get (rows ! i) ''Person Zip Code'' (PStr [])"
  have row: "df ?st ! i = rows ! i" and len: "i < length (df ?st)"
    and none: "calls_for i (trace ?st) = []"
    using assms(1) by (simp_all add: reached_frame)
  from assms(3) have g: "fst (geocode_address env i ?address ?city ?zip ?st) =
      [(''latitude'', PFloat la), (''longitude'', PFloat lo),
       (''formatted_address'', PStr a), (''status'', PStr ''Success'')]"
    by (simp add: geocode_address_def Let_def)
  let ?st4 = "df_at i ''Geocoding_Status'' (PStr ''Success'')
           (df_at i ''Geocoded_Address'' (PStr a)
           (df_at i ''Longitude'' (PFloat lo)
           (df_at i ''Latitude'' (PFloat la)
           (emit i (CallGeocode ?q) (?st\<lparr>v_city := Some ?city\<rparr>)))))"
  have body: "record_body env i ?st = lookups env i (PFloat la) (PFloat lo) ?st4"
    using assms(2) record_body_no_coords [of ?st i env]
    by (simp add: wants_geocoding_def row g dict_item_def store_geocode_def Let_def)
  have vc: "v_city ?st4 = Some ?city" by simp
  have len4: "i < length (df ?st4)" using len by simp
  have "calls_for i (trace (process_record env i ?st)) =
           CallGeocode ?q #
           (if sf_match env ?city then [CallHttp SF_Service (PFloat la) (PFloat lo)]
            else if marin_match env ?city then [CallHttp Marin_Service (PFloat la) (PFloat lo)]
            else [CallHttp Census_Service (PFloat la) (PFloat lo),
                  CallHttp FCC_Service (PFloat la) (PFloat lo), CallNow]
                 @ (if (processed ?st + 1) mod 10 = 0 then [CallSave] else []))
       \<and> (df (process_record env i ?st) ! i) ''Geocoding_Status'' =
           Some (PStr (if sf_match env ?city \<or> marin_match env ?city
                       then ''Processing Error: '' @ [CHR 0x27] @ ''supervisor'' @ [CHR 0x27]
                       else ''Success''))"
    using vc len none
    by (cases rule: lookups_cases [of ?st4 env i "PFloat la" "PFloat lo"])
       (simp_all add: process_record_unfold body)
  with assms(1) show ?thesis
    by (simp add: process_rows_record df_cell_def)
qed

subsection \<open>What happens to a record that already has coordinates\<close>

lemma stored_coordinates_outcome:
  assumes "i < length rows"
    and "pd_notna (row_get (rows ! i) ''Latitude'' PNone)"
    and "pd_notna (row_get (rows ! i) ''Longitude'' PNone)"
  shows "\<forall>q. CallGeocode q \<notin> set (calls_for i (trace (process_rows env rows)))"
    and "v_city (reached env rows i) = None \<Longrightarrow>
           calls_for i (trace (process_rows env rows)) = []"
proof -
  let ?st = "reached env rows i"
  let ?lat = "row_get (rows ! i) ''Latitude'' PNone"
  let ?lon = "row_get (rows ! i) ''Longitude'' PNone"
  have row: "df ?st ! i = rows ! i" and none: "calls_for i (trace ?st) = []"
    using assms(1) by (simp_all add: reached_frame)
  have body: "record_body env i ?st = lookups env i ?lat ?lon ?st"
    using assms(2,3) by (simp add: record_body_def row Let_def)
  have "(\<forall>q. CallGeocode q \<notin> set (calls_for i (trace (process_record env i ?st))))
      \<and> (v_city ?st = None \<longrightarrow> calls_for i (trace (process_record env i ?st)) = [])"
    using none
    by (cases rule: lookups_cases [of ?st env i ?lat ?lon])
       (simp_all add: process_record_unfold body)
  with assms(1) show "\<forall>q. CallGeocode q \<notin> set (calls_for i (trace (process_rows env rows)))"
    and "v_city (reached env rows i) = None \<Longrightarrow>
           calls_for i (trace (process_rows env rows)) = []"
    by (simp_all add: process_rows_record)
qed

section \<open>C1: the city-hall scenario, end to end\<close>

text \<open>
  C1 says that the city-hall record ends with \<open>Geocoding_Status = "Success"\<close>,
  \<open>SF_Supervisorial_District = 6\<close>, populated census and political fields and a
  \<open>Last_Updated\<close> stamp.  The theorem records what \<open>process_records\<close> does on that
  input: the geocoder and the municipal service are called, district 6 is stored, and then
  \<^verbatim>\<open>sf_district['supervisor']\<close> raises \<open>KeyError\<close>, because the resolver returns a
  dictionary with the single key \<open>district\<close>.  The record ends with the status
  \<open>Processing Error: 'supervisor'\<close>; the census and political services are never called and
  their six fields and \<open>Last_Updated\<close> stay \<open>None\<close>.  Lemma
  \<open>geocoded_record_outcome\<close> above shows the same end for every record that is
  geocoded in the run and whose city names San Francisco or a Marin municipality.
\<close>

theorem city_hall_end_to_end:
  "calls_for 0 (trace (process_rows city_hall_env (load_data city_hall_sheet))) =
     [CallGeocode ''1 Dr Carlton B Goodlett Pl, San Francisco, CA 94102'',
      CallHttp SF_Service (PFloat 37.7793) (PFloat (-122.4193))]
   \<and> map (df_cell (process_rows city_hall_env (load_data city_hall_sheet)) 0)
       [''Geocoding_Status'', ''SF_Supervisorial_District'',
        ''Census_PUMA'', ''Census_Tract'', ''Census_Block'',
        ''Congressional_District'', ''CA_Assembly_District'', ''CA_Senate_District'',
        ''Last_Updated''] =
     [Some (PStr (''Processing Error: '' @ [CHR 0x27] @ ''supervisor'' @ [CHR 0x27])),
      Some (PInt 6),
      Some PNone, Some PNone, Some PNone,
      Some PNone, Some PNone, Some PNone,
      Some PNone]"
  by code_simp

section \<open>C2: records that already have coordinates\<close>

text \<open>
  C2 says that a record with stored coordinates is not geocoded again and still gets all
  its district lookups.  The theorem records what \<open>process_records\<close> does on a sheet whose
  only record is an Oakland address with coordinates from an earlier run: the geocoder is
  not called, but neither is any boundary service.  The skip branch never assigns the local
  variable \<open>city\<close>, so the first statement of the lookups raises \<open>UnboundLocalError\<close>;
  the record ends with a \<open>Processing Error\<close> status, and its census and political fields
  and \<open>Last_Updated\<close> stay \<open>None\<close>.  (That the geocoder is never called for
  a record with stored coordinates is lemma \<open>stored_coordinates_outcome\<close> above.)
\<close>

theorem stored_coordinates_skip_lookups:
  "calls_for 0 (trace (process_rows city_hall_env (load_data [geocoded_oakland_row]))) = []
   \<and> map (df_cell (process_rows city_hall_env (load_data [geocoded_oakland_row])) 0)
       [''Geocoding_Status'', ''Census_PUMA'', ''Census_Tract'', ''Census_Block'',
        ''Congressional_District'', ''CA_Assembly_District'', ''CA_Senate_District'',
        ''Last_Updated''] =
     [Some (PStr (''Processing Error: cannot access local variable '' @ [CHR 0x27] @ ''city''
        @ [CHR 0x27] @ '' where it is not associated with a value'')),
      Some PNone, Some PNone, Some PNone,
      Some PNone, Some PNone, Some PNone,
      Some PNone]"
  by code_simp

section \<open>C3: the municipal resolver and the record's own city\<close>

text \<open>
  C3 says that the municipal resolver is called once for a record whose own city contains
  \<open>San Francisco\<close> in any letter case, and never for a record whose city is
  \<open>Oakland\<close>.  The theorem records two runs of \<open>process_records\<close> in which the
  resolver follows the variable \<open>city\<close> left by an earlier iteration instead.  In the
  first, the city-hall record is followed by an Oakland record with stored coordinates: the
  municipal service is called for the Oakland record (position 1).  In the second, the only
  record has the city \<open>SAN FRANCISCO\<close> and stored coordinates: no service is called for
  it at all.  (For a record that is geocoded in the run, lemma
  \<open>geocoded_record_outcome\<close> above shows that the resolver is called once exactly when
  the record's own city matches.)
\<close>

theorem municipal_lookup_uses_stale_city:
  "row_get geocoded_oakland_row ''Person city'' (PStr []) = PStr ''Oakland''
   \<and> calls_for 1
       (trace (process_rows city_hall_env (load_data (city_hall_sheet @ [geocoded_oakland_row])))) =
     [CallHttp SF_Service (PFloat 37.8053) (PFloat (-122.2725))]
   \<and> row_get geocoded_sf_row ''Person city'' (PStr []) = PStr ''SAN FRANCISCO''
   \<and> calls_for 0 (trace (process_rows city_hall_env (load_data [geocoded_sf_row]))) = []"
  by code_simp

section \<open>C4: no match and failure are told apart\<close>

text \<open>
  C4.  For each of the four resolvers, at every coordinate and in every state: when the
  service answers a well-formed body whose feature or result list is empty, the resolver
  returns \<open>None\<close> in each of its fields; when the HTTP call raises, or reading the body
  raises, it returns the string \<open>'Error'\<close> in each of its fields; and the two
  dictionaries are different values.
\<close>

theorem resolver_none_versus_error:
  "(http_svc env (trace st) svc lat lon = HttpJson data \<and> empty_body svc data \<longrightarrow>
      fst (resolve svc env i lat lon st) = all_fields svc PNone)
   \<and> (lookup_raises svc (http_svc env (trace st) svc lat lon) \<longrightarrow>
      fst (resolve svc env i lat lon st) = all_fields svc (PStr ''Error''))
   \<and> all_fields svc PNone \<noteq> all_fields svc (PStr ''Error'')"
proof (intro conjI impI)
  assume "http_svc env (trace st) svc lat lon = HttpJson data \<and> empty_body svc data"
  then show "fst (resolve svc env i lat lon st) = all_fields svc PNone"
    by (simp add: resolve_unfold parse_empty)
next
  assume "lookup_raises svc (http_svc env (trace st) svc lat lon)"
  then show "fst (resolve svc env i lat lon st) = all_fields svc (PStr ''Error'')"
    by (auto simp: resolve_unfold lookup_raises_def split: http_reply.splits sum.splits)
next
  show "all_fields svc PNone \<noteq> all_fields svc (PStr ''Error'')"
    by (cases svc) (auto simp: all_fields_def)
qed

theorem resolver_none_versus_error_witness:
  "fst (resolve SF_Service empty_env 0 (PFloat 37.7793) (PFloat (-122.4193)) (init_state [])) =
     [(''district'', PNone)]
   \<and> fst (resolve Marin_Service empty_env 0 (PFloat 37.7793) (PFloat (-122.4193)) (init_state [])) =
     [(''district'', PNone)]
   \<and> fst (resolve Census_Service empty_env 0 (PFloat 37.7793) (PFloat (-122.4193)) (init_state [])) =
     [(''puma'', PNone), (''tract'', PNone), (''block'', PNone)]
   \<and> fst (resolve FCC_Service empty_env 0 (PFloat 37.7793) (PFloat (-122.4193)) (init_state [])) =
     [(''congressional'', PNone), (''assembly'', PNone), (''senate'', PNone)]
   \<and> fst (resolve SF_Service down_env 0 (PFloat 37.7793) (PFloat (-122.4193)) (init_state [])) =
     [(''district'', PStr ''Error'')]
   \<and> fst (resolve Marin_Service garbled_env 0 (PFloat 37.7793) (PFloat (-122.4193)) (init_state [])) =
     [(''district'', PStr ''Error'')]
   \<and> fst (resolve Census_Service garbled_env 0 (PFloat 37.7793) (PFloat (-122.4193)) (init_state [])) =
     [(''puma'', PStr ''Error''), (''tract'', PStr ''Error''), (''block'', PStr ''Error'')]
   \<and> fst (resolve FCC_Service down_env 0 (PFloat 37.7793) (PFloat (-122.4193)) (init_state [])) =
     [(''congressional'', PStr ''Error''), (''assembly'', PStr ''Error''),
      (''senate'', PStr ''Error'')]"
proof -
  let ?la = "PFloat 37.7793" and ?lo = "PFloat (-122.4193)"
  let ?st = "init_state []"
  have e1: "http_svc empty_env (trace ?st) SF_Service ?la ?lo =
              HttpJson (PDict [(''features'', PList [])])
            \<and> empty_body SF_Service (PDict [(''features'', PList [])])"
    by (simp add: empty_env_def has_empty_list_def)
  have e2: "http_svc empty_env (trace ?st) Marin_Service ?la ?lo =
              HttpJson (PDict [(''features'', PList [])])
            \<and> empty_body Marin_Service (PDict [(''features'', PList [])])"
    by (simp add: empty_env_def has_empty_list_def)
  have e3: "http_svc empty_env (trace ?st) Census_Service ?la ?lo =
              HttpJson (PDict [(''result'', PDict [(''geographies'', PDict
                [(''Census Tracts'', PList [])])])])
            \<and> empty_body Census_Service (PDict [(''result'', PDict [(''geographies'', PDict
                [(''Census Tracts'', PList [])])])])"
    by (simp add: empty_env_def level_empty_def)
  have e4: "http_svc empty_env (trace ?st) FCC_Service ?la ?lo =
              HttpJson (PDict [(''results'', PList [])])
            \<and> empty_body FCC_Service (PDict [(''results'', PList [])])"
    by (simp add: empty_env_def has_empty_list_def)
  have r1: "lookup_raises SF_Service (http_svc down_env (trace ?st) SF_Service ?la ?lo)"
    by (simp add: down_env_def lookup_raises_def)
  have r2: "lookup_raises Marin_Service (http_svc garbled_env (trace ?st) Marin_Service ?la ?lo)"
    by (simp add: garbled_env_def lookup_raises_def district_of_features_def then_e_def)
  have r3: "lookup_raises Census_Service (http_svc garbled_env (trace ?st) Census_Service ?la ?lo)"
    by (simp add: garbled_env_def lookup_raises_def census_of_data_def then_e_def)
  have r4: "lookup_raises FCC_Service (http_svc down_env (trace ?st) FCC_Service ?la ?lo)"
    by (simp add: down_env_def lookup_raises_def)
  note t = resolver_none_versus_error
  have c1: "fst (resolve SF_Service empty_env 0 ?la ?lo ?st) = all_fields SF_Service PNone"
    using t [of empty_env ?st SF_Service ?la ?lo "PDict [(''features'', PList [])]" 0] e1
    by blast
  have c2: "fst (resolve Marin_Service empty_env 0 ?la ?lo ?st) = all_fields Marin_Service PNone"
    using t [of empty_env ?st Marin_Service ?la ?lo "PDict [(''features'', PList [])]" 0] e2
    by blast
  have c3: "fst (resolve Census_Service empty_env 0 ?la ?lo ?st) =
      all_fields Census_Service PNone"
    using t [of empty_env ?st Census_Service ?la ?lo
        "PDict [(''result'', PDict [(''geographies'', PDict [(''Census Tracts'', PList [])])])]" 0]
      e3
    by blast
  have c4: "fst (resolve FCC_Service empty_env 0 ?la ?lo ?st) = all_fields FCC_Service PNone"
    using t [of empty_env ?st FCC_Service ?la ?lo "PDict [(''results'', PList [])]" 0] e4
    by blast
  have c5: "fst (resolve SF_Service down_env 0 ?la ?lo ?st) =
      all_fields SF_Service (PStr ''Error'')"
    using t [of down_env ?st SF_Service ?la ?lo PNone 0] r1 by blast
  have c6: "fst (resolve Marin_Service garbled_env 0 ?la ?lo ?st) =
      all_fields Marin_Service (PStr ''Error'')"
    using t [of garbled_env ?st Marin_Service ?la ?lo PNone 0] r2 by blast
  have c7: "fst (resolve Census_Service garbled_env 0 ?la ?lo ?st) =
      all_fields Census_Service (PStr ''Error'')"
    using t [of garbled_env ?st Census_Service ?la ?lo PNone 0] r3 by blast
  have c8: "fst (resolve FCC_Service down_env 0 ?la ?lo ?st) =
      all_fields FCC_Service (PStr ''Error'')"
    using t [of down_env ?st FCC_Service ?la ?lo PNone 0] r4 by blast
  show ?thesis
    unfolding c1 c2 c3 c4 c5 c6 c7 c8 by (simp add: all_fields_def)
qed

section \<open>C5: one checkpoint for every ten completed records\<close>

text \<open>
  C5.  A record completes when the run reaches its \<open>Last_Updated\<close> stamp (the call
  \<open>CallNow\<close>); a record that leaves early, on missing address data, on a failed geocode
  or on an exception, makes no such call.  After any number of iterations of the loop, and
  so at the end of the run, the number of checkpoint saves is the number of completed
  records divided by ten, rounded down, and the counter \<open>processed\<close> is the number of
  completed records: a save is made exactly when that number reaches a multiple of ten.
  In particular a run in which 25 records complete makes 2 saves.
\<close>

theorem checkpoint_every_ten_completed:
  "count_call CallSave (trace (process_loop env idxs (init_state rows))) =
     count_call CallNow (trace (process_loop env idxs (init_state rows))) div 10
   \<and> processed (process_loop env idxs (init_state rows)) =
     count_call CallNow (trace (process_loop env idxs (init_state rows)))
   \<and> count_call CallSave (trace (process_rows env rows)) =
     count_call CallNow (trace (process_rows env rows)) div 10
   \<and> (count_call CallNow (trace (process_rows env rows)) = 25 \<longrightarrow>
        count_call CallSave (trace (process_rows env rows)) = 2)"
  using process_loop_tally [OF init_state_tally, of env idxs rows]
    process_loop_tally [OF init_state_tally, of env "[0..<length rows]" rows]
  by (simp add: tally_def process_rows_def)

theorem checkpoint_every_ten_completed_witness:
  "count_call CallNow (trace (process_rows city_hall_env (replicate 25 oakland_row))) = 25
   \<and> count_call CallSave (trace (process_rows city_hall_env (replicate 25 oakland_row))) = 2"
proof -
  have found: "always_found city_hall_env"
    unfolding always_found_def
  proof (intro allI)
    fix h q
    have "geocode_svc city_hall_env h q = GeoLocation 37.7793 (-122.4193) ''City Hall, SF, CA''"
      by (simp add: city_hall_env_def)
    then show "\<exists>la lo a. geocode_svc city_hall_env h q = GeoLocation la lo a"
      by blast
  qed
  have els: "elsewhere city_hall_env oakland_row"
    by code_simp
  have "count_call CallNow (trace (process_rows city_hall_env (replicate 25 oakland_row))) =
      length (replicate 25 oakland_row)"
    using found els by (intro process_rows_completes) simp_all
  then have all25: "count_call CallNow
      (trace (process_rows city_hall_env (replicate 25 oakland_row))) = 25"
    by simp
  with checkpoint_every_ten_completed [of city_hall_env "[]" "replicate 25 oakland_row"]
  show ?thesis by blast
qed

section \<open>C6: records with missing address data\<close>

text \<open>
  C6 says that a record without coordinates that lacks a street address, a city or a postal
  code gets the status \<open>Missing Address Data\<close> and causes no call.  The program tests the
  three cells with \<open>all([...])\<close>, that is by Python truthiness.  Lemma
  \<open>missing_address_ends_record\<close> above shows the claim for a cell that is \<open>None\<close>, an
  empty string, zero, or a missing column.  A blank spreadsheet cell, however, is read by
  pandas as NaN, which is true.  The theorem records what \<open>process_records\<close> does on a
  record whose street-address cell is blank: the geocoder is called with the text
  \<open>nan\<close> for the street address, the census and political lookups run, and the record
  ends with the status \<open>Success\<close> and with coordinates.
\<close>

theorem blank_address_is_geocoded:
  "pd_notna (row_get blank_address_row ''Person Address'' (PStr [])) = False
   \<and> calls_for 0 (trace (process_rows city_hall_env (load_data [blank_address_row]))) =
     [CallGeocode ''nan, Oakland, CA 94612'',
      CallHttp Census_Service (PFloat 37.7793) (PFloat (-122.4193)),
      CallHttp FCC_Service (PFloat 37.7793) (PFloat (-122.4193)),
      CallNow]
   \<and> map (df_cell (process_rows city_hall_env (load_data [blank_address_row])) 0)
       [''Geocoding_Status'', ''Latitude'', ''Longitude'', ''Geocoded_Address''] =
     [Some (PStr ''Success''), Some (PFloat 37.7793), Some (PFloat (-122.4193)),
      Some (PStr ''City Hall, SF, CA'')]"
proof -
  let ?rows = "load_data [blank_address_row]"
  have blank: "pd_notna (row_get blank_address_row ''Person Address'' (PStr [])) = False"
    by code_simp
  have len: "0 < length ?rows"
    by (simp add: load_data_def)
  have els: "elsewhere city_hall_env (?rows ! 0)"
    by code_simp
  have q: "full_address city_hall_env (row_get (?rows ! 0) ''Person Address'' (PStr []))
             (row_get (?rows ! 0) ''Person city'' (PStr []))
             (row_get (?rows ! 0) ''Person Zip Code'' (PStr [])) = ''nan, Oakland, CA 94612''"
    by code_simp
  have found: "geocode_svc city_hall_env (trace (reached city_hall_env ?rows 0))
      (full_address city_hall_env (row_get (?rows ! 0) ''Person Address'' (PStr []))
             (row_get (?rows ! 0) ''Person city'' (PStr []))
             (row_get (?rows ! 0) ''Person Zip Code'' (PStr []))) =
        GeoLocation 37.7793 (-122.4193) ''City Hall, SF, CA''"
    by (simp add: city_hall_env_def)
  have first: "processed (reached city_hall_env ?rows 0) = 0"
    by (simp add: reached_def init_state_def)
  from elsewhere_record_is_enriched [OF len els found] blank show ?thesis
    by (simp only: q first) simp
qed

section \<open>C7: a failed geocode ends the record\<close>



section \<open>C8: one record's failure does not stop the run\<close>



section \<open>C9: a status of Success comes with coordinates\<close>

text \<open>
  C9.  If every record of the table satisfies the invariant (a \<open>Geocoding_Status\<close> of
  \<open>Success\<close> comes with non-null \<open>Latitude\<close> and \<open>Longitude\<close>), then so does
  every record after one more record has been processed, whichever way that processing
  ends.
\<close>

theorem status_invariant_preserved:
  assumes "i < length (df st)" and "list_all status_ok (df st)"
  shows "list_all status_ok (df (process_record env i st))"
  using assms by (rule process_record_keeps_invariant)

theorem status_invariant_preserved_witness:
  "0 < length (df (init_state (load_data [oakland_row])))
   \<and> list_all status_ok (df (init_state (load_data [oakland_row])))
   \<and> list_all status_ok (df (process_record city_hall_env 0 (init_state (load_data [oakland_row]))))"
proof -
  have len: "0 < length (df (init_state (load_data [oakland_row])))"
    by (simp add: init_state_def load_data_def)
  have inv: "list_all status_ok (df (init_state (load_data [oakland_row])))"
    by code_simp
  from status_invariant_preserved [OF len inv] len inv show ?thesis by blast
qed

section \<open>C10: the geocoder's query\<close>

text \<open>
  C10, as amended.  For all strings \<open>address\<close>, \<open>city\<close> and \<open>zip_code\<close>,
  \<open>geocode_address\<close> makes exactly one call, to the geocoder, with the query
  \<open>address, city, CA zip_code\<close>: address, comma, space, city, comma, space, the fixed
  state code \<open>CA\<close>, space, postal code.
\<close>

theorem geocode_address_query:
  "trace (snd (geocode_address env i (PStr address) (PStr city) (PStr zip_code) st)) =
     trace st @ [(i, CallGeocode (address @ '', '' @ city @ '', CA '' @ zip_code))]"
  by (simp add: geocode_address_def full_address_def emit_def Let_def)

text \<open>
  C10 as the specification words it (no comma between city and state) fails on the
  city-hall address: the query that is sent is not
  \<open>1 Dr Carlton B Goodlett Pl, San Francisco CA 94102\<close>.
\<close>

theorem geocode_address_query_counterexample:
  "trace (snd (geocode_address city_hall_env 0 (PStr ''1 Dr Carlton B Goodlett Pl'')
       (PStr ''San Francisco'') (PStr ''94102'') (init_state [])))
   \<noteq> [(0, CallGeocode ''1 Dr Carlton B Goodlett Pl, San Francisco CA 94102'')]"
  by (simp add: geocode_address_def full_address_def emit_def Let_def init_state_def)

end
